theory Spec2Isabelle
  imports Main "HOL-Library.AList"
begin

text \<open>
  The adapter registry and the dispatch of poly-iac-mcp: the Terraform/OpenTofu adapter
  of \<open>adapters/terraform.js\<close> behind the server of \<open>index.js\<close>, and the ReScript
  adapters \<open>Terraform.res\<close> and \<open>Pulumi.res\<close> behind the server of \<open>main.js\<close>.
  A function that awaits a process takes the environment and the world and returns its
  result, or the error it throws, with the world it leaves.
\<close>

section \<open>JavaScript values\<close>

text \<open>
  The arguments of a tool call are decoded JSON; handlers also see \<open>undefined\<close> for an
  absent property. An object is the list of its own entries in the order
  \<open>Object.entries\<close> enumerates them (its keys are distinct). Numbers are the integral
  ones that JavaScript prints in full, digit by digit (those below \<open>10^21\<close> in
  absolute value); text is a list of ASCII characters.
\<close>

datatype jsval =
    JUndefined
  | JNull
  | JBool bool
  | JNum int
  | JStr string
  | JArr "jsval list"
  | JObj "(string \<times> jsval) list"

text \<open>Property read \<open>obj.k\<close> on an object given by its entries.\<close>

definition get_prop :: "(string \<times> jsval) list \<Rightarrow> string \<Rightarrow> jsval" where
  "get_prop obj k = (case map_of obj k of None \<Rightarrow> JUndefined | Some v \<Rightarrow> v)"

text \<open>A destructuring default \<open>{k = d}\<close>: the default replaces \<open>undefined\<close> only.\<close>

definition get_default :: "(string \<times> jsval) list \<Rightarrow> string \<Rightarrow> jsval \<Rightarrow> jsval" where
  "get_default obj k d = (case get_prop obj k of JUndefined \<Rightarrow> d | v \<Rightarrow> v)"

text \<open>The condition of \<open>if (v)\<close>.\<close>

fun truthy :: "jsval \<Rightarrow> bool" where
  "truthy JUndefined = False"
| "truthy JNull = False"
| "truthy (JBool b) = b"
| "truthy (JNum n) = (n \<noteq> 0)"
| "truthy (JStr s) = (s \<noteq> [])"
| "truthy (JArr xs) = True"
| "truthy (JObj kvs) = True"

definition digit :: "nat \<Rightarrow> char" where
  "digit d = ''0123456789'' ! (d mod 10)"

function show_nat :: "nat \<Rightarrow> string" where
  "show_nat n = (if n < 10 then [digit n] else show_nat (n div 10) @ [digit n])"
  by pat_completeness auto
termination
  by (relation "measure id") auto

declare show_nat.simps [simp del]

definition show_int :: "int \<Rightarrow> string" where
  "show_int i = (if i < 0 then CHR ''-'' # show_nat (nat (- i)) else show_nat (nat i))"

fun join :: "string \<Rightarrow> string list \<Rightarrow> string" where
  "join sep [] = []"
| "join sep [s] = s"
| "join sep (s # t # ss) = s @ sep @ join sep (t # ss)"

text \<open>
  String conversion, as a template literal \<open>`${v}`\<close> performs it; \<open>None\<close> when it
  throws a \<open>TypeError\<close>. An object of decoded JSON is converted by
  \<open>Object.prototype.toString\<close> unless it has a property \<open>toString\<close> of its own:
  that property is no function, and neither it nor \<open>valueOf\<close> then yields a
  primitive. An array joins the conversions of its elements, the empty text standing
  for \<open>undefined\<close> and \<open>null\<close>.
\<close>

fun to_string :: "jsval \<Rightarrow> string option" where
  "to_string JUndefined = Some ''undefined''"
| "to_string JNull = Some ''null''"
| "to_string (JBool b) = Some (if b then ''true'' else ''false'')"
| "to_string (JNum n) = Some (show_int n)"
| "to_string (JStr s) = Some s"
| "to_string (JArr xs) =
     map_option (join '','')
       (those (map (\<lambda>x. if x = JUndefined \<or> x = JNull then Some [] else to_string x) xs))"
| "to_string (JObj kvs) =
     (if ''toString'' \<in> set (map fst kvs) then None else Some ''[object Object]'')"

definition indexed :: "'a list \<Rightarrow> (string \<times> 'a) list" where
  "indexed xs = zip (map show_nat [0..<length xs]) xs"

text \<open>\<open>Object.entries(v)\<close> for a value that is neither \<open>undefined\<close> nor \<open>null\<close>.\<close>

fun entries :: "jsval \<Rightarrow> (string \<times> jsval) list" where
  "entries (JObj kvs) = kvs"
| "entries (JArr xs) = indexed xs"
| "entries (JStr s) = indexed (map (\<lambda>c. JStr [c]) s)"
| "entries v = []"

section \<open>Errors, the environment and the module state\<close>

text \<open>A thrown error, with its \<open>message\<close>.\<close>

datatype exn = Error string | TypeError string

fun message :: "exn \<Rightarrow> string" where
  "message (Error m) = m"
| "message (TypeError m) = m"

text \<open>
  What lies outside the program: \<open>run_process\<close> is the operating system answering
  \<open>Deno.Command(binary, {args}).output()\<close> with exit code, standard output and
  standard error (already decoded), or throwing when the binary cannot be spawned;
  \<open>json_parse\<close> is \<open>JSON.parse\<close> (\<open>None\<close> when it throws). The wording of the
  engine's own errors belongs to it too: \<open>cannot_destructure\<close> is the message of the
  \<open>TypeError\<close> thrown when \<open>undefined\<close> is destructured by a pattern with the given
  property names, \<open>cannot_convert\<close> the message of the one thrown when an object has
  no conversion to a string.
\<close>

record env =
  run_process :: "string \<Rightarrow> jsval list \<Rightarrow> exn + (int \<times> string \<times> string)"
  json_parse :: "string \<Rightarrow> jsval option"
  cannot_destructure :: "string list \<Rightarrow> string"
  cannot_convert :: string

text \<open>
  The mutable state of the modules: \<open>binaryPath\<close> and \<open>connected\<close> of the
  Terraform adapter (the same two variables in \<open>terraform.js\<close> and \<open>Terraform.res\<close>),
  \<open>pulumi_connected\<close> of the Pulumi adapter; and what the program has done to the
  outside: every process invocation, in order, and every line of \<open>console.error\<close>.
\<close>

record world =
  binaryPath :: "string option"
  connected :: bool
  pulumi_connected :: bool
  spawned :: "(string \<times> jsval list) list"
  stderr_lines :: "string list"

definition command_output ::
  "env \<Rightarrow> string \<Rightarrow> jsval list \<Rightarrow> world \<Rightarrow> (exn + (int \<times> string \<times> string)) \<times> world" where
  "command_output e binary args w =
     (run_process e binary args, w\<lparr>spawned := spawned w @ [(binary, args)]\<rparr>)"

definition console_error :: "string \<Rightarrow> world \<Rightarrow> world" where
  "console_error line w = w\<lparr>stderr_lines := stderr_lines w @ [line]\<rparr>"

section \<open>The Terraform/OpenTofu adapter (adapters/terraform.js)\<close>

fun detectBinary_loop :: "env \<Rightarrow> string list \<Rightarrow> world \<Rightarrow> string option \<times> world" where
  "detectBinary_loop e [] w = (None, w)"
| "detectBinary_loop e (binary # rest) w =
     (case command_output e binary [JStr ''version''] w of
        (Inr (c, out, err), w') \<Rightarrow>
          if c = 0 then (Some binary, w') else detectBinary_loop e rest w'
      | (Inl x, w') \<Rightarrow> detectBinary_loop e rest w')"

definition detectBinary :: "env \<Rightarrow> world \<Rightarrow> string option \<times> world" where
  "detectBinary e w = detectBinary_loop e [''tofu'', ''terraform''] w"

text \<open>
  \<open>if (binaryPath)\<close> and \<open>if (!binaryPath)\<close> test a value that is \<open>null\<close> or a
  string: the empty string counts as absent.
\<close>

definition connect :: "env \<Rightarrow> world \<Rightarrow> jsval \<times> world" where
  "connect e w =
     (case detectBinary e w of (b, w') \<Rightarrow>
        let w'' = w'\<lparr>binaryPath := b\<rparr>;
            failure = (JObj [(''success'', JBool False),
                             (''error'', JStr ''No Terraform/OpenTofu binary found'')], w'')
        in (case b of
              None \<Rightarrow> failure
            | Some s \<Rightarrow>
                if s \<noteq> []
                then (JObj [(''success'', JBool True), (''binary'', JStr s)],
                      w''\<lparr>connected := True\<rparr>)
                else failure))"

definition disconnect :: "world \<Rightarrow> world" where
  "disconnect w = w\<lparr>connected := False, binaryPath := None\<rparr>"

definition isConnected :: "world \<Rightarrow> bool" where
  "isConnected w = connected w"

definition not_connected :: "exn" where
  "not_connected = Error ''Not connected to Terraform/OpenTofu''"

definition runCommand :: "env \<Rightarrow> jsval list \<Rightarrow> world \<Rightarrow> (exn + jsval) \<times> world" where
  "runCommand e args w =
     (case binaryPath w of
        None \<Rightarrow> (Inl not_connected, w)
      | Some b \<Rightarrow>
          if b = [] then (Inl not_connected, w)
          else (case command_output e b args w of
                  (Inl x, w') \<Rightarrow> (Inl x, w')
                | (Inr (c, out, err), w') \<Rightarrow>
                    (Inr (JObj [(''success'', JBool (c = 0)), (''output'', JStr out),
                                (''error'', JStr err), (''code'', JNum c)]), w')))"

subsection \<open>The tool table\<close>

record property =
  ptype :: string
  pdescription :: string
  pdefault :: "jsval option"

record schema =
  properties :: "(string \<times> property) list"
  required :: "string list"

text \<open>
  A handler of \<open>terraform.js\<close> receives \<open>request.params.arguments\<close> as it came:
  the mapping of the call, or \<open>undefined\<close> (\<open>None\<close>) when the call has none.
\<close>

type_synonym js_handler_fn =
  "(string \<times> jsval) list option \<Rightarrow> env \<Rightarrow> world \<Rightarrow> (exn + jsval) \<times> world"

record tool =
  name :: string
  description :: string
  inputSchema :: schema
  handler :: js_handler_fn

definition string_prop :: "string \<Rightarrow> property" where
  "string_prop d = \<lparr>ptype = ''string'', pdescription = d, pdefault = None\<rparr>"

definition boolean_prop :: "string \<Rightarrow> bool \<Rightarrow> property" where
  "boolean_prop d b = \<lparr>ptype = ''boolean'', pdescription = d, pdefault = Some (JBool b)\<rparr>"

definition object_prop :: "string \<Rightarrow> property" where
  "object_prop d = \<lparr>ptype = ''object'', pdescription = d, pdefault = None\<rparr>"

text \<open>
  Each handler builds its argument vector and hands it to \<open>runCommand\<close>. The vector
  built from a mapping is named here (\<open>init_args\<close>, ...) so that it can be spoken
  about; an element is whatever value the handler pushed.
\<close>

definition init_args :: "(string \<times> jsval) list \<Rightarrow> jsval list" where
  "init_args a =
     (let path = get_prop a ''path'';
          backend = get_default a ''backend'' (JBool True);
          upgrade = get_default a ''upgrade'' (JBool False)
      in [JStr ''init'']
         @ (if \<not> truthy backend then [JStr ''-backend=false''] else [])
         @ (if truthy upgrade then [JStr ''-upgrade''] else [])
         @ [path])"

text \<open>
  The plan handler converts \<open>out\<close> and the values of \<open>vars\<close> to text, in this order,
  and the first conversion that throws ends the handler.
\<close>

fun var_flags :: "env \<Rightarrow> (string \<times> jsval) list \<Rightarrow> exn + jsval list" where
  "var_flags e [] = Inr []"
| "var_flags e ((k, v) # rest) =
     (case to_string v of
        None \<Rightarrow> Inl (TypeError (cannot_convert e))
      | Some s \<Rightarrow>
          (case var_flags e rest of
             Inl x \<Rightarrow> Inl x
           | Inr flags \<Rightarrow> Inr (JStr (''-var='' @ k @ ''='' @ s) # flags)))"

definition out_flag :: "env \<Rightarrow> jsval \<Rightarrow> exn + jsval list" where
  "out_flag e out =
     (if truthy out
      then (case to_string out of
              None \<Rightarrow> Inl (TypeError (cannot_convert e))
            | Some s \<Rightarrow> Inr [JStr (''-out='' @ s)])
      else Inr [])"

definition plan_args :: "env \<Rightarrow> (string \<times> jsval) list \<Rightarrow> exn + jsval list" where
  "plan_args e a =
     (let path = get_prop a ''path'';
          out = get_prop a ''out'';
          vars = get_prop a ''vars''
      in case out_flag e out of
           Inl x \<Rightarrow> Inl x
         | Inr outs \<Rightarrow>
             (case (if truthy vars then var_flags e (entries vars) else Inr []) of
                Inl x \<Rightarrow> Inl x
              | Inr flags \<Rightarrow> Inr ([JStr ''plan''] @ outs @ flags @ [path])))"

definition apply_args :: "(string \<times> jsval) list \<Rightarrow> jsval list" where
  "apply_args a =
     (let path = get_prop a ''path'';
          autoApprove = get_default a ''autoApprove'' (JBool False)
      in [JStr ''apply'']
         @ (if truthy autoApprove then [JStr ''-auto-approve''] else [])
         @ [path])"

definition destroy_args :: "(string \<times> jsval) list \<Rightarrow> jsval list" where
  "destroy_args a =
     (let path = get_prop a ''path'';
          autoApprove = get_default a ''autoApprove'' (JBool False)
      in [JStr ''destroy'']
         @ (if truthy autoApprove then [JStr ''-auto-approve''] else [])
         @ [path])"

definition output_args :: "(string \<times> jsval) list \<Rightarrow> jsval list" where
  "output_args a =
     (let nm = get_prop a ''name'';
          json = get_default a ''json'' (JBool True)
      in [JStr ''output'']
         @ (if truthy json then [JStr ''-json''] else [])
         @ (if truthy nm then [nm] else []))"

definition state_list_args :: "(string \<times> jsval) list \<Rightarrow> jsval list" where
  "state_list_args a = [JStr ''state'', JStr ''list'']"

definition validate_args :: "(string \<times> jsval) list \<Rightarrow> jsval list" where
  "validate_args a = [JStr ''validate'', get_prop a ''path'']"

definition fmt_args :: "(string \<times> jsval) list \<Rightarrow> jsval list" where
  "fmt_args a =
     (let path = get_prop a ''path'';
          check = get_default a ''check'' (JBool False)
      in [JStr ''fmt'']
         @ (if truthy check then [JStr ''-check''] else [])
         @ [path])"

text \<open>
  What a handler has when it reaches \<open>runCommand\<close>: the vector, or the error thrown
  on the way. Every handler destructures its parameter first, which throws when the
  call has no arguments.
\<close>

definition destructured ::
  "env \<Rightarrow> string list \<Rightarrow> (string \<times> jsval) list option \<Rightarrow>
     ((string \<times> jsval) list \<Rightarrow> exn + jsval list) \<Rightarrow> exn + jsval list" where
  "destructured e pattern args build =
     (case args of
        None \<Rightarrow> Inl (TypeError (cannot_destructure e pattern))
      | Some a \<Rightarrow> build a)"

definition init_built :: "env \<Rightarrow> (string \<times> jsval) list option \<Rightarrow> exn + jsval list" where
  "init_built e args =
     destructured e [''path'', ''backend'', ''upgrade''] args (\<lambda>a. Inr (init_args a))"

definition plan_built :: "env \<Rightarrow> (string \<times> jsval) list option \<Rightarrow> exn + jsval list" where
  "plan_built e args = destructured e [''path'', ''out'', ''vars''] args (plan_args e)"

definition apply_built :: "env \<Rightarrow> (string \<times> jsval) list option \<Rightarrow> exn + jsval list" where
  "apply_built e args =
     destructured e [''path'', ''autoApprove''] args (\<lambda>a. Inr (apply_args a))"

definition destroy_built :: "env \<Rightarrow> (string \<times> jsval) list option \<Rightarrow> exn + jsval list" where
  "destroy_built e args =
     destructured e [''path'', ''autoApprove''] args (\<lambda>a. Inr (destroy_args a))"

definition output_built :: "env \<Rightarrow> (string \<times> jsval) list option \<Rightarrow> exn + jsval list" where
  "output_built e args =
     destructured e [''path'', ''name'', ''json''] args (\<lambda>a. Inr (output_args a))"

definition state_list_built :: "env \<Rightarrow> (string \<times> jsval) list option \<Rightarrow> exn + jsval list" where
  "state_list_built e args = destructured e [''path''] args (\<lambda>a. Inr (state_list_args a))"

definition validate_built :: "env \<Rightarrow> (string \<times> jsval) list option \<Rightarrow> exn + jsval list" where
  "validate_built e args = destructured e [''path''] args (\<lambda>a. Inr (validate_args a))"

definition fmt_built :: "env \<Rightarrow> (string \<times> jsval) list option \<Rightarrow> exn + jsval list" where
  "fmt_built e args = destructured e [''path'', ''check''] args (\<lambda>a. Inr (fmt_args a))"

definition run_built :: "env \<Rightarrow> exn + jsval list \<Rightarrow> world \<Rightarrow> (exn + jsval) \<times> world" where
  "run_built e built w = (case built of Inl x \<Rightarrow> (Inl x, w) | Inr v \<Rightarrow> runCommand e v w)"

definition path_dir :: "(string \<times> property)" where
  "path_dir = (''path'', string_prop ''Path to the Terraform configuration directory'')"

definition terraform_init :: tool where
  "terraform_init =
     \<lparr>name = ''terraform_init'',
      description = ''Initialize a Terraform/OpenTofu working directory'',
      inputSchema =
        \<lparr>properties =
           [path_dir,
            (''backend'', boolean_prop ''Configure the backend for this configuration'' True),
            (''upgrade'', boolean_prop ''Upgrade modules and plugins'' False)],
         required = [''path'']\<rparr>,
      handler = (\<lambda>args e. run_built e (init_built e args))\<rparr>"

definition terraform_plan :: tool where
  "terraform_plan =
     \<lparr>name = ''terraform_plan'',
      description = ''Generate and show an execution plan'',
      inputSchema =
        \<lparr>properties =
           [path_dir,
            (''out'', string_prop ''Write plan to a file''),
            (''vars'', object_prop ''Variable values'')],
         required = [''path'']\<rparr>,
      handler = (\<lambda>args e. run_built e (plan_built e args))\<rparr>"

definition terraform_apply :: tool where
  "terraform_apply =
     \<lparr>name = ''terraform_apply'',
      description = ''Apply infrastructure changes'',
      inputSchema =
        \<lparr>properties =
           [(''path'', string_prop ''Path to plan file or configuration directory''),
            (''autoApprove'', boolean_prop ''Skip interactive approval'' False)],
         required = [''path'']\<rparr>,
      handler = (\<lambda>args e. run_built e (apply_built e args))\<rparr>"

definition terraform_destroy :: tool where
  "terraform_destroy =
     \<lparr>name = ''terraform_destroy'',
      description = ''Destroy infrastructure managed by Terraform'',
      inputSchema =
        \<lparr>properties =
           [path_dir,
            (''autoApprove'', boolean_prop ''Skip interactive approval'' False)],
         required = [''path'']\<rparr>,
      handler = (\<lambda>args e. run_built e (destroy_built e args))\<rparr>"

definition terraform_output :: tool where
  "terraform_output =
     \<lparr>name = ''terraform_output'',
      description = ''Show output values from state'',
      inputSchema =
        \<lparr>properties =
           [path_dir,
            (''name'', string_prop ''Specific output to retrieve''),
            (''json'', boolean_prop ''Output in JSON format'' True)],
         required = [''path'']\<rparr>,
      handler = (\<lambda>args e. run_built e (output_built e args))\<rparr>"

definition terraform_state_list :: tool where
  "terraform_state_list =
     \<lparr>name = ''terraform_state_list'',
      description = ''List resources in the state'',
      inputSchema = \<lparr>properties = [path_dir], required = [''path'']\<rparr>,
      handler = (\<lambda>args e. run_built e (state_list_built e args))\<rparr>"

definition terraform_validate :: tool where
  "terraform_validate =
     \<lparr>name = ''terraform_validate'',
      description = ''Validate the configuration files'',
      inputSchema = \<lparr>properties = [path_dir], required = [''path'']\<rparr>,
      handler = (\<lambda>args e. run_built e (validate_built e args))\<rparr>"

definition terraform_fmt :: tool where
  "terraform_fmt =
     \<lparr>name = ''terraform_fmt'',
      description = ''Format configuration files'',
      inputSchema =
        \<lparr>properties =
           [path_dir,
            (''check'', boolean_prop ''Check if files are formatted without modifying'' False)],
         required = [''path'']\<rparr>,
      handler = (\<lambda>args e. run_built e (fmt_built e args))\<rparr>"

definition tools :: "tool list" where
  "tools =
     [terraform_init, terraform_plan, terraform_apply, terraform_destroy,
      terraform_output, terraform_state_list, terraform_validate, terraform_fmt]"

text \<open>Each tool with what its handler has when it reaches \<open>runCommand\<close>.\<close>

definition tool_vectors ::
  "(tool \<times> (env \<Rightarrow> (string \<times> jsval) list option \<Rightarrow> exn + jsval list)) list" where
  "tool_vectors =
     [(terraform_init, init_built), (terraform_plan, plan_built),
      (terraform_apply, apply_built), (terraform_destroy, destroy_built),
      (terraform_output, output_built), (terraform_state_list, state_list_built),
      (terraform_validate, validate_built), (terraform_fmt, fmt_built)]"

section \<open>The server of index.js\<close>

text \<open>
  An adapter module as \<open>index.js\<close> reads it: \<open>adapter.tools\<close> may be missing
  (\<open>adapter.tools || []\<close>, \<open>adapter.tools?.find\<close>). The adapter list is a parameter:
  the file itself has every import commented out.
\<close>

record adapter =
  adapter_name :: string
  adapter_tools :: "tool list option"

definition terraformAdapter :: adapter where
  "terraformAdapter = \<lparr>adapter_name = ''terraform'', adapter_tools = Some tools\<rparr>"

text \<open>
  The envelope of a call. Its one content item has type \<open>text\<close>; the text is either
  \<open>JSON.stringify(result, null, 2)\<close>, kept as the value that was serialised, or a
  plain message. \<open>isError\<close> is absent on the success path.
\<close>

datatype payload = Stringify jsval | Plain string

record envelope =
  content :: "payload list"
  isError :: "bool option"

definition allTools :: "adapter list \<Rightarrow> tool list" where
  "allTools adapters =
     concat (map (\<lambda>a. case adapter_tools a of None \<Rightarrow> [] | Some ts \<Rightarrow> ts) adapters)"

definition ListTools :: "adapter list \<Rightarrow> world \<Rightarrow> (string \<times> string \<times> schema) list \<times> world" where
  "ListTools adapters w =
     (map (\<lambda>t. (name t, description t, inputSchema t)) (allTools adapters), w)"

definition find_tool :: "adapter \<Rightarrow> string \<Rightarrow> tool option" where
  "find_tool a nm =
     (case adapter_tools a of None \<Rightarrow> None | Some ts \<Rightarrow> find (\<lambda>t. name t = nm) ts)"

text \<open>
  The \<open>try\<close>/\<open>catch\<close> around the handler, the same in \<open>index.js\<close> and in
  \<open>main.js\<close>: a result is serialised, a thrown error becomes an error envelope.
\<close>

definition envelope_of :: "exn + jsval \<Rightarrow> envelope" where
  "envelope_of r =
     (case r of
        Inr result \<Rightarrow> \<lparr>content = [Stringify result], isError = None\<rparr>
      | Inl err \<Rightarrow> \<lparr>content = [Plain (''Error: '' @ message err)], isError = Some True\<rparr>)"

fun CallTool ::
  "adapter list \<Rightarrow> env \<Rightarrow> string \<Rightarrow> (string \<times> jsval) list option \<Rightarrow> world \<Rightarrow>
     envelope \<times> world" where
  "CallTool [] e nm args w =
     (\<lparr>content = [Plain (''Unknown tool: '' @ nm)], isError = Some True\<rparr>, w)"
| "CallTool (a # rest) e nm args w =
     (case find_tool a nm of
        Some t \<Rightarrow> (case handler t args e w of (r, w') \<Rightarrow> (envelope_of r, w'))
      | None \<Rightarrow> CallTool rest e nm args w)"

section \<open>The ReScript adapters\<close>

text \<open>
  A handler receives \<open>dict<JSON.t>\<close>. \<open>Dict.get\<close> followed by a decoder keeps a
  value of the right type and drops anything else.
\<close>

type_synonym handler_fn = "(string \<times> jsval) list \<Rightarrow> env \<Rightarrow> world \<Rightarrow> (exn + jsval) \<times> world"

definition decode_string :: "(string \<times> jsval) list \<Rightarrow> string \<Rightarrow> string option" where
  "decode_string args k = (case map_of args k of Some (JStr s) \<Rightarrow> Some s | _ \<Rightarrow> None)"

definition decode_bool :: "(string \<times> jsval) list \<Rightarrow> string \<Rightarrow> bool option" where
  "decode_bool args k = (case map_of args k of Some (JBool b) \<Rightarrow> Some b | _ \<Rightarrow> None)"

definition getOr :: "'a option \<Rightarrow> 'a \<Rightarrow> 'a" where
  "getOr x d = (case x of Some v \<Rightarrow> v | None \<Rightarrow> d)"

text \<open>
  Modelled from the spec: the module \<open>Adapter\<close> (\<open>toolDef\<close>, \<open>stringParam\<close>,
  \<open>boolParam\<close>) is not among the sources. A parameter has a type, one of string,
  boolean, number and object, and a description; \<open>main.js\<close> reads them as
  \<open>type_\<close> and \<open>description\<close>.
\<close>

record paramDef =
  param_type :: string
  param_description :: string

definition stringParam :: "string \<Rightarrow> paramDef" where
  "stringParam d = \<lparr>param_type = ''string'', param_description = d\<rparr>"

definition boolParam :: "string \<Rightarrow> paramDef" where
  "boolParam d = \<lparr>param_type = ''boolean'', param_description = d\<rparr>"

record toolDef =
  td_description :: string
  td_params :: "(string \<times> paramDef) list"
  td_handler :: handler_fn

text \<open>\<open>Deno.Command.run(binary, args)\<close>: the arguments are strings.\<close>

definition Command_run ::
  "env \<Rightarrow> string \<Rightarrow> string list \<Rightarrow> world \<Rightarrow> (exn + (int \<times> string \<times> string)) \<times> world" where
  "Command_run e binary args w = command_output e binary (map JStr args) w"

subsection \<open>Terraform.res\<close>

fun Terraform_detectBinary_loop ::
  "env \<Rightarrow> string list \<Rightarrow> string option \<Rightarrow> world \<Rightarrow> string option \<times> world" where
  "Terraform_detectBinary_loop e [] result w = (result, w)"
| "Terraform_detectBinary_loop e (binary # rest) result w =
     (if result = None
      then (case Command_run e binary [''version''] w of
              (Inr (c, out, err), w') \<Rightarrow>
                Terraform_detectBinary_loop e rest (if c = 0 then Some binary else result) w'
            | (Inl x, w') \<Rightarrow> Terraform_detectBinary_loop e rest result w')
      else Terraform_detectBinary_loop e rest result w)"

definition Terraform_detectBinary :: "env \<Rightarrow> world \<Rightarrow> string option \<times> world" where
  "Terraform_detectBinary e w = Terraform_detectBinary_loop e [''tofu'', ''terraform''] None w"

definition Terraform_runCommand ::
  "env \<Rightarrow> string list \<Rightarrow> world \<Rightarrow> (exn + jsval) \<times> world" where
  "Terraform_runCommand e args w =
     (case binaryPath w of
        None \<Rightarrow>
          (Inr (JObj [(''success'', JBool False),
                      (''error'', JStr ''Not connected to Terraform/OpenTofu'')]), w)
      | Some binary \<Rightarrow>
          (case Command_run e binary args w of
             (Inl x, w') \<Rightarrow> (Inl x, w')
           | (Inr (c, out, err), w') \<Rightarrow>
               (Inr (JObj [(''success'', JBool (c = 0)), (''output'', JStr out),
                           (''error'', JStr err), (''code'', JNum c)]), w')))"

definition Terraform_connect :: "env \<Rightarrow> world \<Rightarrow> (exn + unit) \<times> world" where
  "Terraform_connect e w =
     (case Terraform_detectBinary e w of
        (Some b, w') \<Rightarrow> (Inr (), w'\<lparr>binaryPath := Some b, connected := True\<rparr>)
      | (None, w') \<Rightarrow> (Inl (Error ''No Terraform/OpenTofu binary found''), w'))"

definition Terraform_disconnect :: "world \<Rightarrow> world" where
  "Terraform_disconnect w = w\<lparr>connected := False, binaryPath := None\<rparr>"

definition Terraform_initArgs :: "(string \<times> jsval) list \<Rightarrow> string list" where
  "Terraform_initArgs args =
     (let path = getOr (decode_string args ''path'') ''.'';
          backend = getOr (decode_bool args ''backend'') True;
          upgrade = getOr (decode_bool args ''upgrade'') False
      in [''init'']
         @ (if \<not> backend then [''-backend=false''] else [])
         @ (if upgrade then [''-upgrade''] else [])
         @ [path])"

definition Terraform_planArgs :: "(string \<times> jsval) list \<Rightarrow> string list" where
  "Terraform_planArgs args =
     (let path = getOr (decode_string args ''path'') ''.'';
          out = decode_string args ''out''
      in [''plan'']
         @ (case out of Some f \<Rightarrow> [''-out='' @ f] | None \<Rightarrow> [])
         @ [path])"

definition Terraform_applyArgs :: "(string \<times> jsval) list \<Rightarrow> string list" where
  "Terraform_applyArgs args =
     (let path = getOr (decode_string args ''path'') ''.'';
          autoApprove = getOr (decode_bool args ''autoApprove'') False
      in [''apply'']
         @ (if autoApprove then [''-auto-approve''] else [])
         @ [path])"

definition Terraform_destroyArgs :: "(string \<times> jsval) list \<Rightarrow> string list" where
  "Terraform_destroyArgs args =
     (let path = getOr (decode_string args ''path'') ''.'';
          autoApprove = getOr (decode_bool args ''autoApprove'') False
      in [''destroy'']
         @ (if autoApprove then [''-auto-approve''] else [])
         @ [path])"

definition Terraform_outputArgs :: "(string \<times> jsval) list \<Rightarrow> string list" where
  "Terraform_outputArgs args =
     (let outputName = decode_string args ''name'';
          json = getOr (decode_bool args ''json'') True
      in [''output'']
         @ (if json then [''-json''] else [])
         @ (case outputName of Some n \<Rightarrow> [n] | None \<Rightarrow> []))"

definition Terraform_stateListArgs :: "(string \<times> jsval) list \<Rightarrow> string list" where
  "Terraform_stateListArgs args = [''state'', ''list'']"

definition Terraform_validateArgs :: "(string \<times> jsval) list \<Rightarrow> string list" where
  "Terraform_validateArgs args = [''validate'', getOr (decode_string args ''path'') ''.'']"

definition Terraform_fmtArgs :: "(string \<times> jsval) list \<Rightarrow> string list" where
  "Terraform_fmtArgs args =
     (let path = getOr (decode_string args ''path'') ''.'';
          check = getOr (decode_bool args ''check'') False
      in [''fmt'']
         @ (if check then [''-check''] else [])
         @ [path])"

definition Terraform_versionArgs :: "(string \<times> jsval) list \<Rightarrow> string list" where
  "Terraform_versionArgs args = [''version'']"

definition Terraform_handler :: "((string \<times> jsval) list \<Rightarrow> string list) \<Rightarrow> handler_fn" where
  "Terraform_handler cmdArgs args e w = Terraform_runCommand e (cmdArgs args) w"

definition Terraform_tools :: "(string \<times> toolDef) list" where
  "Terraform_tools =
     [(''terraform_init'',
       \<lparr>td_description = ''Initialize a Terraform/OpenTofu working directory'',
        td_params = [(''path'', stringParam ''Path to configuration directory''),
                     (''backend'', boolParam ''Configure the backend''),
                     (''upgrade'', boolParam ''Upgrade modules and plugins'')],
        td_handler = Terraform_handler Terraform_initArgs\<rparr>),
      (''terraform_plan'',
       \<lparr>td_description = ''Generate and show an execution plan'',
        td_params = [(''path'', stringParam ''Path to configuration directory''),
                     (''out'', stringParam ''Write plan to a file'')],
        td_handler = Terraform_handler Terraform_planArgs\<rparr>),
      (''terraform_apply'',
       \<lparr>td_description = ''Apply infrastructure changes'',
        td_params = [(''path'', stringParam ''Path to plan file or configuration''),
                     (''autoApprove'', boolParam ''Skip interactive approval'')],
        td_handler = Terraform_handler Terraform_applyArgs\<rparr>),
      (''terraform_destroy'',
       \<lparr>td_description = ''Destroy infrastructure managed by Terraform'',
        td_params = [(''path'', stringParam ''Path to configuration directory''),
                     (''autoApprove'', boolParam ''Skip interactive approval'')],
        td_handler = Terraform_handler Terraform_destroyArgs\<rparr>),
      (''terraform_output'',
       \<lparr>td_description = ''Show output values from state'',
        td_params = [(''name'', stringParam ''Specific output to retrieve''),
                     (''json'', boolParam ''Output in JSON format'')],
        td_handler = Terraform_handler Terraform_outputArgs\<rparr>),
      (''terraform_state_list'',
       \<lparr>td_description = ''List resources in the state'',
        td_params = [],
        td_handler = Terraform_handler Terraform_stateListArgs\<rparr>),
      (''terraform_validate'',
       \<lparr>td_description = ''Validate the configuration files'',
        td_params = [(''path'', stringParam ''Path to configuration directory'')],
        td_handler = Terraform_handler Terraform_validateArgs\<rparr>),
      (''terraform_fmt'',
       \<lparr>td_description = ''Format configuration files'',
        td_params = [(''path'', stringParam ''Path to configuration directory''),
                     (''check'', boolParam ''Check without modifying'')],
        td_handler = Terraform_handler Terraform_fmtArgs\<rparr>),
      (''terraform_version'',
       \<lparr>td_description = ''Show Terraform/OpenTofu version'',
        td_params = [],
        td_handler = Terraform_handler Terraform_versionArgs\<rparr>)]"

subsection \<open>Pulumi.res\<close>

definition is_space :: "char \<Rightarrow> bool" where
  "is_space c = (c \<in> set [CHR 0x09, CHR 0x0A, CHR 0x0B, CHR 0x0C, CHR 0x0D, CHR 0x20])"

text \<open>\<open>String.trim\<close>, on the white space of ASCII.\<close>

definition trim :: "string \<Rightarrow> string" where
  "trim s = rev (dropWhile is_space (rev (dropWhile is_space s)))"

definition runPulumiCmd ::
  "env \<Rightarrow> string list \<Rightarrow> world \<Rightarrow> (exn + (int \<times> string \<times> string)) \<times> world" where
  "runPulumiCmd e args w = Command_run e ''pulumi'' args w"

definition Pulumi_connect :: "env \<Rightarrow> world \<Rightarrow> (exn + unit) \<times> world" where
  "Pulumi_connect e w =
     (case runPulumiCmd e [''version''] w of
        (Inl x, w') \<Rightarrow> (Inl x, w')
      | (Inr (c, out, err), w') \<Rightarrow>
          if c = 0 then (Inr (), w'\<lparr>pulumi_connected := True\<rparr>)
          else (Inl (Error ''Pulumi CLI not found''), w'))"

definition Pulumi_disconnect :: "world \<Rightarrow> world" where
  "Pulumi_disconnect w = w\<lparr>pulumi_connected := False\<rparr>"

definition Pulumi_isConnected :: "world \<Rightarrow> bool" where
  "Pulumi_isConnected w = pulumi_connected w"

definition stack_flag :: "string option \<Rightarrow> string list" where
  "stack_flag stack = (case stack of Some s \<Rightarrow> [''--stack='' @ s] | None \<Rightarrow> [])"

text \<open>
  \<open>let (code, stdout, stderr) = await runPulumiCmd(cmdArgs)\<close>: an error thrown
  by the awaited call leaves the handler; otherwise the handler goes on with the
  triple.
\<close>

definition await ::
  "(exn + 'a) \<times> world \<Rightarrow> ('a \<Rightarrow> world \<Rightarrow> (exn + 'b) \<times> world) \<Rightarrow> (exn + 'b) \<times> world" where
  "await m k = (case m of (Inl x, w') \<Rightarrow> (Inl x, w') | (Inr v, w') \<Rightarrow> k v w')"

definition previewHandler :: handler_fn where
  "previewHandler args e w =
     (let stack = decode_string args ''stack'';
          path = getOr (decode_string args ''path'') ''.'';
          cmdArgs = [''preview'', ''--cwd'', path, ''--json''] @ stack_flag stack
      in await (runPulumiCmd e cmdArgs w) (\<lambda>(c, out, err) w'.
           (Inr (JObj [(''success'', JBool (c = 0)), (''output'', JStr out),
                       (''error'', JStr err)]), w')))"

definition upHandler :: handler_fn where
  "upHandler args e w =
     (let stack = decode_string args ''stack'';
          path = getOr (decode_string args ''path'') ''.'';
          yes = getOr (decode_bool args ''yes'') False;
          cmdArgs = [''up'', ''--cwd'', path, ''--json''] @ stack_flag stack
                    @ (if yes then [''--yes''] else [])
      in await (runPulumiCmd e cmdArgs w) (\<lambda>(c, out, err) w'.
           (Inr (JObj [(''success'', JBool (c = 0)), (''output'', JStr out),
                       (''error'', JStr err)]), w')))"

definition destroyHandler :: handler_fn where
  "destroyHandler args e w =
     (let stack = decode_string args ''stack'';
          path = getOr (decode_string args ''path'') ''.'';
          yes = getOr (decode_bool args ''yes'') False;
          cmdArgs = [''destroy'', ''--cwd'', path, ''--json''] @ stack_flag stack
                    @ (if yes then [''--yes''] else [])
      in await (runPulumiCmd e cmdArgs w) (\<lambda>(c, out, err) w'.
           (Inr (JObj [(''success'', JBool (c = 0)), (''output'', JStr out),
                       (''error'', JStr err)]), w')))"

definition stackListHandler :: handler_fn where
  "stackListHandler args e w =
     (let path = getOr (decode_string args ''path'') ''.''
      in await (runPulumiCmd e [''stack'', ''ls'', ''--cwd'', path, ''--json''] w)
           (\<lambda>(c, out, err) w'.
              (Inr (if c = 0
                    then (case json_parse e out of
                            Some v \<Rightarrow> v
                          | None \<Rightarrow> JObj [(''stacks'', JStr out)])
                    else JObj [(''success'', JBool False), (''error'', JStr err)]), w')))"

definition stackSelectHandler :: handler_fn where
  "stackSelectHandler args e w =
     (case decode_string args ''stack'' of
        None \<Rightarrow> (Inl (Error ''stack parameter is required''), w)
      | Some stack \<Rightarrow>
          (let path = getOr (decode_string args ''path'') ''.''
           in await (runPulumiCmd e [''stack'', ''select'', stack, ''--cwd'', path] w)
                (\<lambda>(c, out, err) w'.
                   (Inr (JObj [(''success'', JBool (c = 0)), (''stack'', JStr stack),
                               (''error'', JStr err)]), w'))))"

definition stackInitHandler :: handler_fn where
  "stackInitHandler args e w =
     (case decode_string args ''stack'' of
        None \<Rightarrow> (Inl (Error ''stack parameter is required''), w)
      | Some stack \<Rightarrow>
          (let path = getOr (decode_string args ''path'') ''.''
           in await (runPulumiCmd e [''stack'', ''init'', stack, ''--cwd'', path] w)
                (\<lambda>(c, out, err) w'.
                   (Inr (JObj [(''success'', JBool (c = 0)), (''stack'', JStr stack),
                               (''output'', JStr out), (''error'', JStr err)]), w'))))"

definition stackOutputHandler :: handler_fn where
  "stackOutputHandler args e w =
     (let stack = decode_string args ''stack'';
          path = getOr (decode_string args ''path'') ''.'';
          cmdArgs = [''stack'', ''output'', ''--cwd'', path, ''--json''] @ stack_flag stack
      in await (runPulumiCmd e cmdArgs w) (\<lambda>(c, out, err) w'.
           (Inr (if c = 0
                 then (case json_parse e out of
                         Some v \<Rightarrow> v
                       | None \<Rightarrow> JObj [(''outputs'', JStr out)])
                 else JObj [(''success'', JBool False), (''error'', JStr err)]), w')))"

definition refreshHandler :: handler_fn where
  "refreshHandler args e w =
     (let stack = decode_string args ''stack'';
          path = getOr (decode_string args ''path'') ''.'';
          yes = getOr (decode_bool args ''yes'') False;
          cmdArgs = [''refresh'', ''--cwd'', path, ''--json''] @ stack_flag stack
                    @ (if yes then [''--yes''] else [])
      in await (runPulumiCmd e cmdArgs w) (\<lambda>(c, out, err) w'.
           (Inr (JObj [(''success'', JBool (c = 0)), (''output'', JStr out),
                       (''error'', JStr err)]), w')))"

definition configSetHandler :: handler_fn where
  "configSetHandler args e w =
     (case decode_string args ''key'' of
        None \<Rightarrow> (Inl (Error ''key parameter is required''), w)
      | Some key \<Rightarrow>
          (case decode_string args ''value'' of
             None \<Rightarrow> (Inl (Error ''value parameter is required''), w)
           | Some val \<Rightarrow>
               (let secret = getOr (decode_bool args ''secret'') False;
                    path = getOr (decode_string args ''path'') ''.'';
                    cmdArgs = [''config'', ''set'', key, val, ''--cwd'', path]
                              @ (if secret then [''--secret''] else [])
                in await (runPulumiCmd e cmdArgs w) (\<lambda>(c, out, err) w'.
                     (Inr (JObj [(''success'', JBool (c = 0)), (''key'', JStr key),
                                 (''error'', JStr err)]), w')))))"

definition configGetHandler :: handler_fn where
  "configGetHandler args e w =
     (case decode_string args ''key'' of
        None \<Rightarrow> (Inl (Error ''key parameter is required''), w)
      | Some key \<Rightarrow>
          (let path = getOr (decode_string args ''path'') ''.''
           in await (runPulumiCmd e [''config'', ''get'', key, ''--cwd'', path] w)
                (\<lambda>(c, out, err) w'.
                   (Inr (JObj [(''success'', JBool (c = 0)), (''key'', JStr key),
                               (''value'', JStr (trim out)), (''error'', JStr err)]), w'))))"

definition versionHandler :: handler_fn where
  "versionHandler args e w =
     await (runPulumiCmd e [''version''] w) (\<lambda>(c, out, err) w'.
       (Inr (JObj [(''success'', JBool (c = 0)), (''version'', JStr (trim out)),
                   (''error'', JStr err)]), w'))"

definition Pulumi_tools :: "(string \<times> toolDef) list" where
  "Pulumi_tools =
     [(''pulumi_preview'',
       \<lparr>td_description = ''Preview changes to infrastructure'',
        td_params = [(''path'', stringParam ''Path to Pulumi project''),
                     (''stack'', stringParam ''Stack name to preview'')],
        td_handler = previewHandler\<rparr>),
      (''pulumi_up'',
       \<lparr>td_description = ''Deploy infrastructure changes'',
        td_params = [(''path'', stringParam ''Path to Pulumi project''),
                     (''stack'', stringParam ''Stack name to deploy''),
                     (''yes'', boolParam ''Skip confirmation prompt'')],
        td_handler = upHandler\<rparr>),
      (''pulumi_destroy'',
       \<lparr>td_description = ''Destroy infrastructure'',
        td_params = [(''path'', stringParam ''Path to Pulumi project''),
                     (''stack'', stringParam ''Stack name to destroy''),
                     (''yes'', boolParam ''Skip confirmation prompt'')],
        td_handler = destroyHandler\<rparr>),
      (''pulumi_stack_list'',
       \<lparr>td_description = ''List all stacks'',
        td_params = [(''path'', stringParam ''Path to Pulumi project'')],
        td_handler = stackListHandler\<rparr>),
      (''pulumi_stack_select'',
       \<lparr>td_description = ''Select a stack'',
        td_params = [(''stack'', stringParam ''Stack name to select''),
                     (''path'', stringParam ''Path to Pulumi project'')],
        td_handler = stackSelectHandler\<rparr>),
      (''pulumi_stack_init'',
       \<lparr>td_description = ''Create a new stack'',
        td_params = [(''stack'', stringParam ''Stack name to create''),
                     (''path'', stringParam ''Path to Pulumi project'')],
        td_handler = stackInitHandler\<rparr>),
      (''pulumi_stack_output'',
       \<lparr>td_description = ''Get stack outputs'',
        td_params = [(''stack'', stringParam ''Stack name''),
                     (''path'', stringParam ''Path to Pulumi project'')],
        td_handler = stackOutputHandler\<rparr>),
      (''pulumi_refresh'',
       \<lparr>td_description = ''Refresh state from cloud'',
        td_params = [(''path'', stringParam ''Path to Pulumi project''),
                     (''stack'', stringParam ''Stack name''),
                     (''yes'', boolParam ''Skip confirmation prompt'')],
        td_handler = refreshHandler\<rparr>),
      (''pulumi_config_set'',
       \<lparr>td_description = ''Set a configuration value'',
        td_params = [(''key'', stringParam ''Configuration key''),
                     (''value'', stringParam ''Configuration value''),
                     (''secret'', boolParam ''Encrypt the value''),
                     (''path'', stringParam ''Path to Pulumi project'')],
        td_handler = configSetHandler\<rparr>),
      (''pulumi_config_get'',
       \<lparr>td_description = ''Get a configuration value'',
        td_params = [(''key'', stringParam ''Configuration key''),
                     (''path'', stringParam ''Path to Pulumi project'')],
        td_handler = configGetHandler\<rparr>),
      (''pulumi_version'',
       \<lparr>td_description = ''Show Pulumi version'',
        td_params = [],
        td_handler = versionHandler\<rparr>)]"

section \<open>The server of main.js\<close>

record adapter_module =
  m_name :: string
  m_connect :: "env \<Rightarrow> world \<Rightarrow> (exn + unit) \<times> world"
  m_tools :: "(string \<times> toolDef) list"

definition Terraform :: adapter_module where
  "Terraform = \<lparr>m_name = ''terraform'', m_connect = Terraform_connect,
                 m_tools = Terraform_tools\<rparr>"

definition Pulumi :: adapter_module where
  "Pulumi = \<lparr>m_name = ''pulumi'', m_connect = Pulumi_connect,
              m_tools = Pulumi_tools\<rparr>"

definition VERSION :: string where
  "VERSION = ''1.2.0''"

definition adapters :: "adapter_module list" where
  "adapters = [Terraform, Pulumi]"

text \<open>
  \<open>allTools[name] = def\<close> for each entry of the adapter's tools: a name already in
  the table keeps its place and takes the new value, a new name goes to the end.
\<close>

definition register_tools ::
  "(string \<times> toolDef) list \<Rightarrow> (string \<times> toolDef) list \<Rightarrow> (string \<times> toolDef) list" where
  "register_tools ts table = fold (\<lambda>(nm, d). AList.update nm d) ts table"

text \<open>The first loop of \<open>main\<close>: connect every adapter and collect the tools.\<close>

fun connect_all ::
  "adapter_module list \<Rightarrow> env \<Rightarrow> adapter_module list \<times> (string \<times> toolDef) list \<times> world \<Rightarrow>
     adapter_module list \<times> (string \<times> toolDef) list \<times> world" where
  "connect_all [] e acc = acc"
| "connect_all (a # rest) e (connectedAdapters, table, w) =
     (case m_connect a e w of
        (Inr u, w') \<Rightarrow>
          connect_all rest e (connectedAdapters @ [a], register_tools (m_tools a) table, w')
      | (Inl err, w') \<Rightarrow>
          connect_all rest e
            (connectedAdapters, table,
             console_error (''Failed to connect '' @ m_name a @ '': '' @ message err) w'))"

text \<open>
  The second loop: one registration per entry of the table, with the input schema
  built from the parameters and the callback that wraps the handler.
\<close>

definition tool_callback ::
  "toolDef \<Rightarrow> (string \<times> jsval) list \<Rightarrow> env \<Rightarrow> world \<Rightarrow> envelope \<times> world" where
  "tool_callback t args e w = (case td_handler t args e w of (r, w') \<Rightarrow> (envelope_of r, w'))"

record registration =
  reg_name :: string
  reg_description :: string
  reg_properties :: "(string \<times> string \<times> string) list"
  reg_tool :: toolDef

definition register :: "string \<times> toolDef \<Rightarrow> registration" where
  "register = (\<lambda>(nm, t).
     \<lparr>reg_name = nm, reg_description = td_description t,
      reg_properties =
        fold (\<lambda>(paramName, paramDef). AList.update paramName
                (param_type paramDef, param_description paramDef)) (td_params t) [],
      reg_tool = t\<rparr>)"

text \<open>
  The process after \<open>main\<close> has run, the transport being taken to connect. No
  path of \<open>main.js\<close> ends the process: \<open>exit_code\<close> is \<open>None\<close> while the
  server serves.
\<close>

record server =
  registered :: "registration list"
  connectedAdapters :: "adapter_module list"
  exit_code :: "int option"

definition main :: "adapter_module list \<Rightarrow> env \<Rightarrow> world \<Rightarrow> server \<times> world" where
  "main ads e w =
     (case connect_all ads e ([], [], w) of (conn, table, w1) \<Rightarrow>
        let regs = map register table;
            w2 = console_error (''poly-iac-mcp v'' @ VERSION @ '' (STDIO mode)'') w1;
            w3 = console_error (show_nat (length conn) @ '' adapter(s) connected'') w2;
            w4 = console_error (show_nat (length table) @ '' tools registered'') w3;
            w5 = console_error
                   ''Feedback: https://github.com/hyperpolymath/poly-iac-mcp/issues'' w4
        in (\<lparr>registered = regs, connectedAdapters = conn, exit_code = None\<rparr>, w5))"

text \<open>
  A call arriving at the server: the SDK hands it to the callback registered under the
  name; a name that was never registered does not reach the program.
\<close>

definition call_registered ::
  "server \<Rightarrow> env \<Rightarrow> string \<Rightarrow> (string \<times> jsval) list \<Rightarrow> world \<Rightarrow> (envelope \<times> world) option" where
  "call_registered srv e nm args w =
     (case find (\<lambda>r. reg_name r = nm) (registered srv) of
        None \<Rightarrow> None
      | Some r \<Rightarrow> Some (tool_callback (reg_tool r) args e w))"

text \<open>
  What each \<open>connect()\<close> of the first loop returns: the adapters in the order the
  loop takes them, each with whether its \<open>connect()\<close> returned (\<open>True\<close>) or threw,
  in the world the earlier iterations left.
\<close>

fun connect_outcomes :: "adapter_module list \<Rightarrow> env \<Rightarrow> world \<Rightarrow> (adapter_module \<times> bool) list" where
  "connect_outcomes [] e w = []"
| "connect_outcomes (a # rest) e w =
     (case m_connect a e w of
        (Inr u, w') \<Rightarrow> (a, True) # connect_outcomes rest e w'
      | (Inl err, w') \<Rightarrow>
          (a, False) # connect_outcomes rest e
            (console_error (''Failed to connect '' @ m_name a @ '': '' @ message err) w'))"

section \<open>The command line of each tool of main.js\<close>

text \<open>
  The arguments with which a tool of \<open>Terraform.res\<close> runs the resolved binary,
  and those with which a tool of \<open>Pulumi.res\<close> runs \<open>pulumi\<close>, or the error the
  handler raises before it runs anything.
\<close>

definition Terraform_vectors :: "(string \<times> ((string \<times> jsval) list \<Rightarrow> string list)) list" where
  "Terraform_vectors =
     [(''terraform_init'', Terraform_initArgs), (''terraform_plan'', Terraform_planArgs),
      (''terraform_apply'', Terraform_applyArgs), (''terraform_destroy'', Terraform_destroyArgs),
      (''terraform_output'', Terraform_outputArgs),
      (''terraform_state_list'', Terraform_stateListArgs),
      (''terraform_validate'', Terraform_validateArgs), (''terraform_fmt'', Terraform_fmtArgs),
      (''terraform_version'', Terraform_versionArgs)]"

definition required_string ::
  "(string \<times> jsval) list \<Rightarrow> string \<Rightarrow> (string \<Rightarrow> exn + string list) \<Rightarrow> exn + string list" where
  "required_string args p build =
     (case decode_string args p of
        None \<Rightarrow> Inl (Error (p @ '' parameter is required''))
      | Some s \<Rightarrow> build s)"

definition cwd :: "(string \<times> jsval) list \<Rightarrow> string list" where
  "cwd args = [''--cwd'', getOr (decode_string args ''path'') ''.'']"

definition yes_flag :: "(string \<times> jsval) list \<Rightarrow> string list" where
  "yes_flag args = (if getOr (decode_bool args ''yes'') False then [''--yes''] else [])"

definition Pulumi_previewArgs :: "(string \<times> jsval) list \<Rightarrow> exn + string list" where
  "Pulumi_previewArgs args =
     Inr ([''preview''] @ cwd args @ [''--json''] @ stack_flag (decode_string args ''stack''))"

definition Pulumi_upArgs :: "(string \<times> jsval) list \<Rightarrow> exn + string list" where
  "Pulumi_upArgs args =
     Inr ([''up''] @ cwd args @ [''--json''] @ stack_flag (decode_string args ''stack'')
          @ yes_flag args)"

definition Pulumi_destroyArgs :: "(string \<times> jsval) list \<Rightarrow> exn + string list" where
  "Pulumi_destroyArgs args =
     Inr ([''destroy''] @ cwd args @ [''--json''] @ stack_flag (decode_string args ''stack'')
          @ yes_flag args)"

definition Pulumi_stackListArgs :: "(string \<times> jsval) list \<Rightarrow> exn + string list" where
  "Pulumi_stackListArgs args = Inr ([''stack'', ''ls''] @ cwd args @ [''--json''])"

definition Pulumi_stackSelectArgs :: "(string \<times> jsval) list \<Rightarrow> exn + string list" where
  "Pulumi_stackSelectArgs args =
     required_string args ''stack'' (\<lambda>stack. Inr ([''stack'', ''select'', stack] @ cwd args))"

definition Pulumi_stackInitArgs :: "(string \<times> jsval) list \<Rightarrow> exn + string list" where
  "Pulumi_stackInitArgs args =
     required_string args ''stack'' (\<lambda>stack. Inr ([''stack'', ''init'', stack] @ cwd args))"

definition Pulumi_stackOutputArgs :: "(string \<times> jsval) list \<Rightarrow> exn + string list" where
  "Pulumi_stackOutputArgs args =
     Inr ([''stack'', ''output''] @ cwd args @ [''--json'']
          @ stack_flag (decode_string args ''stack''))"

definition Pulumi_refreshArgs :: "(string \<times> jsval) list \<Rightarrow> exn + string list" where
  "Pulumi_refreshArgs args =
     Inr ([''refresh''] @ cwd args @ [''--json''] @ stack_flag (decode_string args ''stack'')
          @ yes_flag args)"

definition Pulumi_configSetArgs :: "(string \<times> jsval) list \<Rightarrow> exn + string list" where
  "Pulumi_configSetArgs args =
     required_string args ''key'' (\<lambda>key.
       required_string args ''value'' (\<lambda>val.
         Inr ([''config'', ''set'', key, val] @ cwd args
              @ (if getOr (decode_bool args ''secret'') False then [''--secret''] else []))))"

definition Pulumi_configGetArgs :: "(string \<times> jsval) list \<Rightarrow> exn + string list" where
  "Pulumi_configGetArgs args =
     required_string args ''key'' (\<lambda>key. Inr ([''config'', ''get'', key] @ cwd args))"

definition Pulumi_versionArgs :: "(string \<times> jsval) list \<Rightarrow> exn + string list" where
  "Pulumi_versionArgs args = Inr [''version'']"

definition Pulumi_vectors ::
  "(string \<times> ((string \<times> jsval) list \<Rightarrow> exn + string list)) list" where
  "Pulumi_vectors =
     [(''pulumi_preview'', Pulumi_previewArgs), (''pulumi_up'', Pulumi_upArgs),
      (''pulumi_destroy'', Pulumi_destroyArgs), (''pulumi_stack_list'', Pulumi_stackListArgs),
      (''pulumi_stack_select'', Pulumi_stackSelectArgs),
      (''pulumi_stack_init'', Pulumi_stackInitArgs),
      (''pulumi_stack_output'', Pulumi_stackOutputArgs), (''pulumi_refresh'', Pulumi_refreshArgs),
      (''pulumi_config_set'', Pulumi_configSetArgs), (''pulumi_config_get'', Pulumi_configGetArgs),
      (''pulumi_version'', Pulumi_versionArgs)]"

section \<open>Parameters a handler insists on\<close>

text \<open>
  The Pulumi handlers that raise \<open>... parameter is required\<close>, with the parameters
  each of them looks for, in the order in which it does.
\<close>

definition required_params :: "(string \<times> string list) list" where
  "required_params =
     [(''pulumi_stack_select'', [''stack'']),
      (''pulumi_stack_init'', [''stack'']),
      (''pulumi_config_set'', [''key'', ''value'']),
      (''pulumi_config_get'', [''key''])]"

section \<open>Reading an envelope\<close>

text \<open>
  The result object that the text of an envelope decodes to, when the text is a
  serialised object; and the shape in which the failure of a process reaches the
  caller: an envelope not marked as an error, whose result has \<open>success\<close> false
  and the standard error of the process as \<open>error\<close>.
\<close>

fun result_of :: "payload list \<Rightarrow> (string \<times> jsval) list option" where
  "result_of [Stringify (JObj res)] = Some res"
| "result_of ps = None"

definition delivered_as_data :: "string \<Rightarrow> envelope \<Rightarrow> bool" where
  "delivered_as_data err env =
     (isError env \<noteq> Some True \<and>
      (case result_of (content env) of
         Some res \<Rightarrow> get_prop res ''success'' = JBool False \<and> get_prop res ''error'' = JStr err
       | None \<Rightarrow> False))"

section \<open>Concrete worlds and environments\<close>

text \<open>The state in which the modules are loaded.\<close>

definition fresh :: world where
  "fresh = \<lparr>binaryPath = None, connected = False, pulumi_connected = False,
            spawned = [], stderr_lines = []\<rparr>"

text \<open>A machine with OpenTofu only, one with Pulumi only, and one with neither.\<close>

definition destructure_text :: "string list \<Rightarrow> string" where
  "destructure_text pattern =
     ''Cannot destructure property '' @ (case pattern of [] \<Rightarrow> [] | p # ps \<Rightarrow> p)
       @ '' of undefined''"

definition convert_text :: string where
  "convert_text = ''Cannot convert object to primitive value''"

definition os_tofu :: env where
  "os_tofu =
     \<lparr>run_process = (\<lambda>b a.
        if b = ''tofu''
        then (if a = [JStr ''version''] then Inr (0, ''OpenTofu v1.8.0'', [])
              else Inr (1, [], ''Error: No configuration files''))
        else Inl (Error ''NotFound'')),
      json_parse = (\<lambda>s. None),
      cannot_destructure = destructure_text, cannot_convert = convert_text\<rparr>"

definition os_pulumi :: env where
  "os_pulumi =
     \<lparr>run_process = (\<lambda>b a.
        if b = ''pulumi''
        then (if a = [JStr ''version''] then Inr (0, ''v3.100.0'', [])
              else Inr (1, [], ''no such stack''))
        else Inl (Error ''NotFound'')),
      json_parse = (\<lambda>s. None),
      cannot_destructure = destructure_text, cannot_convert = convert_text\<rparr>"

definition os_none :: env where
  "os_none =
     \<lparr>run_process = (\<lambda>b a. Inl (Error ''NotFound'')), json_parse = (\<lambda>s. None),
      cannot_destructure = destructure_text, cannot_convert = convert_text\<rparr>"

text \<open>
  Two adapters that give a tool the same name, as \<open>index.js\<close> and as \<open>main.js\<close>
  read an adapter; the handler of each answers with the name of its adapter.
\<close>

definition say :: "string \<Rightarrow> 'a \<Rightarrow> env \<Rightarrow> world \<Rightarrow> (exn + jsval) \<times> world" where
  "say s args e w = (Inr (JStr s), w)"

definition first_adapter :: adapter where
  "first_adapter =
     \<lparr>adapter_name = ''first'',
      adapter_tools = Some [\<lparr>name = ''shared_tool'', description = ''the first one'',
        inputSchema = \<lparr>properties = [], required = []\<rparr>, handler = say ''first''\<rparr>]\<rparr>"

definition second_adapter :: adapter where
  "second_adapter =
     \<lparr>adapter_name = ''second'',
      adapter_tools = Some [\<lparr>name = ''shared_tool'', description = ''the second one'',
        inputSchema = \<lparr>properties = [], required = []\<rparr>, handler = say ''second''\<rparr>]\<rparr>"

definition first_module :: adapter_module where
  "first_module =
     \<lparr>m_name = ''first'', m_connect = (\<lambda>e w. (Inr (), w)),
      m_tools = [(''shared_tool'',
        \<lparr>td_description = ''the first one'', td_params = [], td_handler = say ''first''\<rparr>)]\<rparr>"

definition second_module :: adapter_module where
  "second_module =
     \<lparr>m_name = ''second'', m_connect = (\<lambda>e w. (Inr (), w)),
      m_tools = [(''shared_tool'',
        \<lparr>td_description = ''the second one'', td_params = [], td_handler = say ''second''\<rparr>)]\<rparr>"

section \<open>Calls to a name that no adapter provides\<close>

text \<open>
  Claim C3. A call that names a tool found in no adapter's table returns the error
  envelope whose text is \<open>Unknown tool: \<close> followed by the requested name. The world
  is returned as it was: no process has been invoked, and the call returns.
\<close>

theorem unknown_tool:
  assumes "\<forall>a\<in>set ads. find_tool a nm = None"
  shows "CallTool ads e nm args w =
           (\<lparr>content = [Plain (''Unknown tool: '' @ nm)], isError = Some True\<rparr>, w)"
  using assms by (induction ads) simp_all

theorem unknown_tool_witness:
  "CallTool [terraformAdapter] os_tofu ''terraform_import'' (Some [(''path'', JStr ''.'')]) fresh =
     (\<lparr>content = [Plain ''Unknown tool: terraform_import''], isError = Some True\<rparr>, fresh)
   \<and> spawned fresh = []"
proof -
  have "\<forall>a\<in>set [terraformAdapter]. find_tool a ''terraform_import'' = None"
    by (simp add: find_tool_def terraformAdapter_def tools_def terraform_init_def
        terraform_plan_def terraform_apply_def terraform_destroy_def terraform_output_def
        terraform_state_list_def terraform_validate_def terraform_fmt_def)
  from unknown_tool [OF this, of os_tofu "Some [(''path'', JStr ''.'')]" fresh]
  show ?thesis by (simp add: fresh_def)
qed

section \<open>The tools of terraform.js and what their handlers build\<close>

lemmas tool_defs = terraform_init_def terraform_plan_def terraform_apply_def
  terraform_destroy_def terraform_output_def terraform_state_list_def terraform_validate_def
  terraform_fmt_def

lemma tool_names:
  "name terraform_init = ''terraform_init''"
  "name terraform_plan = ''terraform_plan''"
  "name terraform_apply = ''terraform_apply''"
  "name terraform_destroy = ''terraform_destroy''"
  "name terraform_output = ''terraform_output''"
  "name terraform_state_list = ''terraform_state_list''"
  "name terraform_validate = ''terraform_validate''"
  "name terraform_fmt = ''terraform_fmt''"
  by (simp_all add: tool_defs)

lemma tool_handlers:
  "handler terraform_init = (\<lambda>args e. run_built e (init_built e args))"
  "handler terraform_plan = (\<lambda>args e. run_built e (plan_built e args))"
  "handler terraform_apply = (\<lambda>args e. run_built e (apply_built e args))"
  "handler terraform_destroy = (\<lambda>args e. run_built e (destroy_built e args))"
  "handler terraform_output = (\<lambda>args e. run_built e (output_built e args))"
  "handler terraform_state_list = (\<lambda>args e. run_built e (state_list_built e args))"
  "handler terraform_validate = (\<lambda>args e. run_built e (validate_built e args))"
  "handler terraform_fmt = (\<lambda>args e. run_built e (fmt_built e args))"
  by (simp_all add: tool_defs)

lemma in_tools:
  "t \<in> set tools \<longleftrightarrow>
     t = terraform_init \<or> t = terraform_plan \<or> t = terraform_apply \<or> t = terraform_destroy \<or>
     t = terraform_output \<or> t = terraform_state_list \<or> t = terraform_validate \<or>
     t = terraform_fmt"
  unfolding tools_def by (simp only: list.set insert_iff empty_iff) blast

lemma in_tool_vectors:
  "(t, f) \<in> set tool_vectors \<longleftrightarrow>
     t = terraform_init \<and> f = init_built \<or> t = terraform_plan \<and> f = plan_built \<or>
     t = terraform_apply \<and> f = apply_built \<or> t = terraform_destroy \<and> f = destroy_built \<or>
     t = terraform_output \<and> f = output_built \<or>
     t = terraform_state_list \<and> f = state_list_built \<or>
     t = terraform_validate \<and> f = validate_built \<or> t = terraform_fmt \<and> f = fmt_built"
  unfolding tool_vectors_def by (simp only: list.set insert_iff empty_iff prod.inject) blast

lemma tool_vectors_tools: "map fst tool_vectors = tools"
  by (simp add: tool_vectors_def tools_def)

lemma find_tool_terraform:
  "t \<in> set tools \<Longrightarrow> find_tool terraformAdapter (name t) = Some t"
  unfolding in_tools
  by (elim disjE; simp add: find_tool_def terraformAdapter_def tools_def tool_names)

lemma CallTool_terraform:
  assumes "t \<in> set tools"
  shows "CallTool [terraformAdapter] e (name t) args w =
           (envelope_of (fst (handler t args e w)), snd (handler t args e w))"
  by (simp add: find_tool_terraform [OF assms] split: prod.splits)

lemma vectors_handler:
  assumes "(t, f) \<in> set tool_vectors"
  shows "t \<in> set tools" and "handler t args e w = run_built e (f e args) w"
  using assms unfolding in_tool_vectors in_tools
  by (elim disjE conjE; simp add: tool_handlers)+

lemma CallTool_built:
  assumes "(t, f) \<in> set tool_vectors"
  shows "CallTool [terraformAdapter] e (name t) args w =
           (envelope_of (fst (run_built e (f e args) w)), snd (run_built e (f e args) w))"
  unfolding CallTool_terraform [OF vectors_handler(1) [OF assms]] vectors_handler(2) [OF assms]
  by (rule refl)

lemma built_from_mapping:
  "init_built e (Some a) = Inr (init_args a)"
  "plan_built e (Some a) = plan_args e a"
  "apply_built e (Some a) = Inr (apply_args a)"
  "destroy_built e (Some a) = Inr (destroy_args a)"
  "output_built e (Some a) = Inr (output_args a)"
  "state_list_built e (Some a) = Inr (state_list_args a)"
  "validate_built e (Some a) = Inr (validate_args a)"
  "fmt_built e (Some a) = Inr (fmt_args a)"
  by (simp_all add: init_built_def plan_built_def apply_built_def destroy_built_def
      output_built_def state_list_built_def validate_built_def fmt_built_def destructured_def)

section \<open>Argument vectors\<close>

text \<open>
  Claim C10. \<open>terraform_state_list\<close> declares \<open>path\<close> required, yet whatever the
  arguments are, the vector it builds is \<open>state list\<close>: the handler is
  \<open>runCommand\<close> on that vector, and when a binary is resolved the one process it
  invokes is that binary with exactly these two arguments.
\<close>

theorem state_list_vector:
  "required (inputSchema terraform_state_list) = [''path'']
   \<and> state_list_args a = [JStr ''state'', JStr ''list'']
   \<and> handler terraform_state_list (Some a) e w = runCommand e [JStr ''state'', JStr ''list''] w
   \<and> spawned (snd (handler terraform_state_list (Some a) e w)) =
       spawned w @ (case binaryPath w of
                      None \<Rightarrow> []
                    | Some b \<Rightarrow> if b = [] then [] else [(b, [JStr ''state'', JStr ''list''])])"
  by (simp add: tool_handlers built_from_mapping run_built_def terraform_state_list_def
      state_list_args_def runCommand_def command_output_def
      split: option.splits sum.splits prod.splits)

theorem state_list_vector_witness:
  "spawned (snd (handler terraform_state_list (Some [(''path'', JStr ''/srv/prod'')]) os_tofu
       (snd (connect os_tofu fresh)))) =
     [(''tofu'', [JStr ''version'']), (''tofu'', [JStr ''state'', JStr ''list''])]"
  using state_list_vector [of "[(''path'', JStr ''/srv/prod'')]" os_tofu "snd (connect os_tofu fresh)"]
  by (simp add: connect_def detectBinary_def command_output_def runCommand_def os_tofu_def
      fresh_def)

text \<open>
  Claim C9, as amended. \<open>terraform_apply\<close> and \<open>terraform_destroy\<close> build the
  command, then \<open>-auto-approve\<close> if \<open>autoApprove\<close> is true, then the path as given,
  and nothing else. So the flag stands in the vector exactly once when
  \<open>autoApprove\<close> is true and not at all when it is false or absent, provided the
  path is not itself the text \<open>-auto-approve\<close>: the path is appended as it came.
  As stated the claim fails on such a path.
\<close>

theorem auto_approve_vector:
  assumes "get_prop a ''path'' \<noteq> JStr ''-auto-approve''"
  shows "(get_prop a ''autoApprove'' = JBool True \<longrightarrow>
            apply_args a = [JStr ''apply'', JStr ''-auto-approve'', get_prop a ''path''] \<and>
            destroy_args a = [JStr ''destroy'', JStr ''-auto-approve'', get_prop a ''path''] \<and>
            count_list (apply_args a) (JStr ''-auto-approve'') = 1 \<and>
            count_list (destroy_args a) (JStr ''-auto-approve'') = 1)
       \<and> (get_prop a ''autoApprove'' = JBool False \<or> get_prop a ''autoApprove'' = JUndefined \<longrightarrow>
            apply_args a = [JStr ''apply'', get_prop a ''path''] \<and>
            destroy_args a = [JStr ''destroy'', get_prop a ''path''] \<and>
            JStr ''-auto-approve'' \<notin> set (apply_args a) \<and>
            JStr ''-auto-approve'' \<notin> set (destroy_args a))"
  using assms by (auto simp add: apply_args_def destroy_args_def get_default_def)

theorem auto_approve_vector_witness:
  "apply_args [(''path'', JStr ''plan.out''), (''autoApprove'', JBool True)] =
     [JStr ''apply'', JStr ''-auto-approve'', JStr ''plan.out'']
   \<and> destroy_args [(''path'', JStr ''infra'')] = [JStr ''destroy'', JStr ''infra'']"
  using auto_approve_vector [of "[(''path'', JStr ''plan.out''), (''autoApprove'', JBool True)]"]
    auto_approve_vector [of "[(''path'', JStr ''infra'')]"]
  by (simp add: get_prop_def)

theorem auto_approve_counterexample:
  "JStr ''-auto-approve'' \<in> set (destroy_args [(''path'', JStr ''-auto-approve'')])
   \<and> count_list (apply_args [(''path'', JStr ''-auto-approve''), (''autoApprove'', JBool True)])
         (JStr ''-auto-approve'') = 2"
  by (simp add: destroy_args_def apply_args_def get_prop_def get_default_def)

text \<open>
  These vectors are what the two handlers hand to \<open>runCommand\<close> for a mapping.
\<close>

lemma auto_approve_handlers:
  "handler terraform_apply (Some a) e w = runCommand e (apply_args a) w"
  "handler terraform_destroy (Some a) e w = runCommand e (destroy_args a) w"
  by (simp_all add: tool_handlers built_from_mapping run_built_def)

text \<open>
  The handlers of \<open>Terraform.res\<close> build the same vectors, with \<open>.\<close> for a path
  that is missing and the flag for the boolean \<open>true\<close> only.
\<close>

lemma Terraform_auto_approve_vector:
  "Terraform_applyArgs a =
     [''apply''] @ (if decode_bool a ''autoApprove'' = Some True then [''-auto-approve''] else [])
       @ [getOr (decode_string a ''path'') ''.'']"
  "Terraform_destroyArgs a =
     [''destroy''] @ (if decode_bool a ''autoApprove'' = Some True then [''-auto-approve''] else [])
       @ [getOr (decode_string a ''path'') ''.'']"
  by (auto simp add: Terraform_applyArgs_def Terraform_destroyArgs_def getOr_def
      split: option.splits)

section \<open>The tool listing\<close>

text \<open>
  Claim C6, as amended. The listing of \<open>index.js\<close> is computed from the adapter
  list alone: it holds the tools of every configured adapter, and neither
  \<open>connect\<close> nor \<open>disconnect\<close> changes it. After \<open>disconnect\<close> the adapter's
  tools are still listed, which is where the claim as stated fails.
\<close>

theorem listing_ignores_connection:
  "fst (ListTools ads (disconnect w)) = fst (ListTools ads w)
   \<and> fst (ListTools ads (snd (connect e w))) = fst (ListTools ads w)
   \<and> fst (ListTools ads w) = map (\<lambda>t. (name t, description t, inputSchema t)) (allTools ads)
   \<and> snd (ListTools ads w) = w"
  by (simp add: ListTools_def)

theorem listing_counterexample:
  "\<not> isConnected (disconnect (snd (connect os_tofu fresh)))
   \<and> ''terraform_init'' \<in>
       set (map fst (fst (ListTools [terraformAdapter] (disconnect (snd (connect os_tofu fresh))))))"
  by (simp add: isConnected_def disconnect_def ListTools_def allTools_def terraformAdapter_def
      tools_def terraform_init_def)

section \<open>Handlers and the connection state\<close>

lemma run_built_not_connected:
  "binaryPath w = None \<Longrightarrow>
   run_built e built w =
     (Inl (case built of Inl x \<Rightarrow> x | Inr v \<Rightarrow> not_connected), w)"
  by (simp add: run_built_def runCommand_def split: sum.splits)

lemma Terraform_runCommand_not_connected:
  "binaryPath w = None \<Longrightarrow>
   Terraform_runCommand e args w =
     (Inr (JObj [(''success'', JBool False),
                 (''error'', JStr ''Not connected to Terraform/OpenTofu'')]), w)"
  by (simp add: Terraform_runCommand_def)

lemma built_without_plan:
  assumes "(t, f) \<in> set tool_vectors" and "t \<noteq> terraform_plan"
  shows "\<exists>v. f e (Some a) = Inr v"
  using assms unfolding in_tool_vectors
  by (elim disjE conjE; simp add: built_from_mapping)

text \<open>
  Claim C5, as amended. Every call of a tool of \<open>terraform.js\<close> made while no binary
  is resolved invokes no process and returns an error envelope. When the handler
  reaches \<open>runCommand\<close> the text is \<open>Error: Not connected to Terraform/OpenTofu\<close>;
  it does so for every argument mapping, \<open>terraform_plan\<close> apart, whose handler may
  throw before while it converts \<open>out\<close> and \<open>vars\<close> to text. When the handler
  throws on the way (the call has no arguments, or that conversion fails) the text is
  the message of that error. Every handler of \<open>Terraform.res\<close>, invoked while no
  binary is resolved, invokes no process and returns the message as a result with
  \<open>success\<close> false. The handlers of the Pulumi adapter never read the connection
  state and always run \<open>pulumi\<close>, which is where the claim as stated fails.
\<close>

theorem terraform_not_connected:
  assumes "binaryPath w = None"
  shows "(\<forall>(t, f)\<in>set tool_vectors.
            CallTool [terraformAdapter] e (name t) args w =
              (\<lparr>content = [Plain (''Error: '' @
                   (case f e args of
                      Inr v \<Rightarrow> ''Not connected to Terraform/OpenTofu''
                    | Inl x \<Rightarrow> message x))],
                isError = Some True\<rparr>, w))
       \<and> (\<forall>(t, f)\<in>set tool_vectors. t \<noteq> terraform_plan \<longrightarrow> (\<exists>v. f e (Some a) = Inr v))
       \<and> map fst tool_vectors = tools
       \<and> (\<forall>(n, t)\<in>set Terraform_tools.
            td_handler t a e w =
              (Inr (JObj [(''success'', JBool False),
                          (''error'', JStr ''Not connected to Terraform/OpenTofu'')]), w) \<and>
            tool_callback t a e w =
              (\<lparr>content = [Stringify (JObj [(''success'', JBool False),
                   (''error'', JStr ''Not connected to Terraform/OpenTofu'')])],
                isError = None\<rparr>, w))"
proof -
  have c: "CallTool [terraformAdapter] e (name t) args w =
        (\<lparr>content = [Plain (''Error: '' @
             (case f e args of
                Inr v \<Rightarrow> ''Not connected to Terraform/OpenTofu''
              | Inl x \<Rightarrow> message x))],
          isError = Some True\<rparr>, w)" if "(t, f) \<in> set tool_vectors" for t f
    unfolding CallTool_built [OF that] run_built_not_connected [OF assms]
    by (simp add: envelope_of_def not_connected_def split: sum.splits)
  have r: "td_handler t a e w =
        (Inr (JObj [(''success'', JBool False),
                    (''error'', JStr ''Not connected to Terraform/OpenTofu'')]), w)"
    if "(n, t) \<in> set Terraform_tools" for n t
    using that assms
    by (auto simp add: Terraform_tools_def Terraform_handler_def
        Terraform_runCommand_not_connected)
  show ?thesis
    using c r built_without_plan [of _ _ e a]
    by (auto simp add: tool_vectors_tools tool_callback_def envelope_of_def)
qed

theorem terraform_not_connected_witness:
  "binaryPath fresh = None
   \<and> CallTool [terraformAdapter] os_tofu ''terraform_apply'' (Some [(''path'', JStr ''.'')]) fresh =
       (\<lparr>content = [Plain ''Error: Not connected to Terraform/OpenTofu''],
         isError = Some True\<rparr>, fresh)
   \<and> CallTool [terraformAdapter] os_tofu ''terraform_plan''
        (Some [(''vars'', JObj [(''a'', JObj [(''toString'', JNum 1)])])]) fresh =
       (\<lparr>content = [Plain ''Error: Cannot convert object to primitive value''],
         isError = Some True\<rparr>, fresh)
   \<and> CallTool [terraformAdapter] os_tofu ''terraform_apply'' None fresh =
       (\<lparr>content = [Plain ''Error: Cannot destructure property path of undefined''],
         isError = Some True\<rparr>, fresh)
   \<and> tool_callback
        \<lparr>td_description = ''Show Terraform/OpenTofu version'', td_params = [],
         td_handler = Terraform_handler Terraform_versionArgs\<rparr> [] os_tofu fresh =
       (\<lparr>content = [Stringify (JObj [(''success'', JBool False),
            (''error'', JStr ''Not connected to Terraform/OpenTofu'')])],
         isError = None\<rparr>, fresh)
   \<and> spawned fresh = []"
proof -
  let ?v = "\<lparr>td_description = ''Show Terraform/OpenTofu version'', td_params = [],
         td_handler = Terraform_handler Terraform_versionArgs\<rparr>"
  let ?bad = "Some [(''vars'', JObj [(''a'', JObj [(''toString'', JNum 1)])])]"
  have b: "binaryPath fresh = None" by (simp add: fresh_def)
  have t: "(terraform_apply, apply_built) \<in> set tool_vectors"
    and p: "(terraform_plan, plan_built) \<in> set tool_vectors"
    by (simp_all add: in_tool_vectors)
  have v: "(''terraform_version'', ?v) \<in> set Terraform_tools"
    by (simp add: Terraform_tools_def)
  from terraform_not_connected [OF b, of os_tofu "Some [(''path'', JStr ''.'')]"] t
  have 1: "CallTool [terraformAdapter] os_tofu (name terraform_apply)
        (Some [(''path'', JStr ''.'')]) fresh =
       (\<lparr>content = [Plain ''Error: Not connected to Terraform/OpenTofu''],
         isError = Some True\<rparr>, fresh)"
    by (fastforce simp add: built_from_mapping)
  have "plan_built os_tofu ?bad = Inl (TypeError ''Cannot convert object to primitive value'')"
    by (simp add: built_from_mapping plan_args_def out_flag_def get_prop_def os_tofu_def
        convert_text_def)
  with terraform_not_connected [OF b, of os_tofu ?bad] p
  have 2: "CallTool [terraformAdapter] os_tofu (name terraform_plan) ?bad fresh =
       (\<lparr>content = [Plain ''Error: Cannot convert object to primitive value''],
         isError = Some True\<rparr>, fresh)"
    by fastforce
  have "apply_built os_tofu None =
      Inl (TypeError ''Cannot destructure property path of undefined'')"
    by (simp add: apply_built_def destructured_def os_tofu_def destructure_text_def)
  with terraform_not_connected [OF b, of os_tofu None] t
  have 3: "CallTool [terraformAdapter] os_tofu (name terraform_apply) None fresh =
       (\<lparr>content = [Plain ''Error: Cannot destructure property path of undefined''],
         isError = Some True\<rparr>, fresh)"
    by fastforce
  from terraform_not_connected [OF b, of os_tofu None "[]"] v
  have 4: "tool_callback ?v [] os_tofu fresh =
       (\<lparr>content = [Stringify (JObj [(''success'', JBool False),
            (''error'', JStr ''Not connected to Terraform/OpenTofu'')])],
         isError = None\<rparr>, fresh)"
    by fastforce
  from 1 2 3 4 b show ?thesis by (simp add: tool_names fresh_def)
qed

theorem pulumi_runs_unconnected:
  "\<not> Pulumi_isConnected fresh
   \<and> previewHandler [] os_pulumi fresh =
       (Inr (JObj [(''success'', JBool False), (''output'', JStr []),
                   (''error'', JStr ''no such stack'')]),
        fresh\<lparr>spawned := [(''pulumi'', [JStr ''preview'', JStr ''--cwd'', JStr ''.'', JStr ''--json''])]\<rparr>)"
  by (simp add: Pulumi_isConnected_def fresh_def previewHandler_def runPulumiCmd_def
      Command_run_def command_output_def os_pulumi_def decode_string_def getOr_def stack_flag_def
      await_def)

section \<open>A failing process is reported as data\<close>

lemma Command_run_eq:
  "Command_run e b args w =
     (run_process e b (map JStr args), w\<lparr>spawned := spawned w @ [(b, map JStr args)]\<rparr>)"
  by (simp add: Command_run_def command_output_def)

lemma await_run:
  "await (runPulumiCmd e cmd w) (\<lambda>(c, out, err) w'. (Inr (F c out err), w')) =
     (case run_process e ''pulumi'' (map JStr cmd) of
        Inl x \<Rightarrow> Inl x
      | Inr (c, out, err) \<Rightarrow> Inr (F c out err),
      w\<lparr>spawned := spawned w @ [(''pulumi'', map JStr cmd)]\<rparr>)"
  by (simp add: await_def runPulumiCmd_def Command_run_eq split: sum.splits)

lemma data_Inr:
  "delivered_as_data err (envelope_of (Inr (JObj res))) \<longleftrightarrow>
     get_prop res ''success'' = JBool False \<and> get_prop res ''error'' = JStr err"
  by (simp add: delivered_as_data_def envelope_of_def)

lemma tool_callback_eq:
  "tool_callback t a e w = (envelope_of (fst (td_handler t a e w)), snd (td_handler t a e w))"
  by (simp add: tool_callback_def split: prod.splits)

text \<open>The process runners, on a process that runs and fails.\<close>

lemma runCommand_fails:
  assumes "binaryPath w = Some b" and "b \<noteq> []"
    and "run_process e b v = Inr (c, out, err)" and "c \<noteq> 0"
  shows "runCommand e v w =
           (Inr (JObj [(''success'', JBool False), (''output'', JStr out),
                       (''error'', JStr err), (''code'', JNum c)]),
            w\<lparr>spawned := spawned w @ [(b, v)]\<rparr>)"
  using assms by (simp add: runCommand_def command_output_def)

lemma Terraform_runCommand_fails:
  assumes "binaryPath w = Some b"
    and "run_process e b (map JStr v) = Inr (c, out, err)" and "c \<noteq> 0"
  shows "Terraform_runCommand e v w =
           (Inr (JObj [(''success'', JBool False), (''output'', JStr out),
                       (''error'', JStr err), (''code'', JNum c)]),
            w\<lparr>spawned := spawned w @ [(b, map JStr v)]\<rparr>)"
  using assms by (simp add: Terraform_runCommand_def Command_run_eq)

lemma await_fails:
  assumes "run_process e ''pulumi'' (map JStr cmd) = Inr (c, out, err)"
    and "delivered_as_data err (envelope_of (Inr (F c out err)))"
  shows "snd (await (runPulumiCmd e cmd w) (\<lambda>(c, out, err) w'. (Inr (F c out err), w'))) =
           w\<lparr>spawned := spawned w @ [(''pulumi'', map JStr cmd)]\<rparr>
       \<and> delivered_as_data err
           (envelope_of (fst (await (runPulumiCmd e cmd w)
              (\<lambda>(c, out, err) w'. (Inr (F c out err), w')))))"
  using assms by (simp add: await_run)

lemmas vector_parts = cwd_def yes_flag_def required_string_def

lemma previewHandler_fails:
  assumes "Pulumi_previewArgs a = Inr v"
    and "run_process e ''pulumi'' (map JStr v) = Inr (c, out, err)" and "c \<noteq> 0"
  shows "snd (previewHandler a e w) = w\<lparr>spawned := spawned w @ [(''pulumi'', map JStr v)]\<rparr>
       \<and> delivered_as_data err (envelope_of (fst (previewHandler a e w)))"
  using assms
  by (clarsimp simp add: previewHandler_def Pulumi_previewArgs_def vector_parts Let_def await_run data_Inr
      get_prop_def split: option.splits split del: if_split)

lemma upHandler_fails:
  assumes "Pulumi_upArgs a = Inr v"
    and "run_process e ''pulumi'' (map JStr v) = Inr (c, out, err)" and "c \<noteq> 0"
  shows "snd (upHandler a e w) = w\<lparr>spawned := spawned w @ [(''pulumi'', map JStr v)]\<rparr>
       \<and> delivered_as_data err (envelope_of (fst (upHandler a e w)))"
  using assms
  by (clarsimp simp add: upHandler_def Pulumi_upArgs_def vector_parts Let_def await_run data_Inr
      get_prop_def split: option.splits split del: if_split)

lemma destroyHandler_fails:
  assumes "Pulumi_destroyArgs a = Inr v"
    and "run_process e ''pulumi'' (map JStr v) = Inr (c, out, err)" and "c \<noteq> 0"
  shows "snd (destroyHandler a e w) = w\<lparr>spawned := spawned w @ [(''pulumi'', map JStr v)]\<rparr>
       \<and> delivered_as_data err (envelope_of (fst (destroyHandler a e w)))"
  using assms
  by (clarsimp simp add: destroyHandler_def Pulumi_destroyArgs_def vector_parts Let_def await_run data_Inr
      get_prop_def split: option.splits split del: if_split)

lemma stackListHandler_fails:
  assumes "Pulumi_stackListArgs a = Inr v"
    and "run_process e ''pulumi'' (map JStr v) = Inr (c, out, err)" and "c \<noteq> 0"
  shows "snd (stackListHandler a e w) = w\<lparr>spawned := spawned w @ [(''pulumi'', map JStr v)]\<rparr>
       \<and> delivered_as_data err (envelope_of (fst (stackListHandler a e w)))"
  using assms
  by (clarsimp simp add: stackListHandler_def Pulumi_stackListArgs_def vector_parts Let_def await_run data_Inr
      get_prop_def split: option.splits split del: if_split)

lemma stackSelectHandler_fails:
  assumes "Pulumi_stackSelectArgs a = Inr v"
    and "run_process e ''pulumi'' (map JStr v) = Inr (c, out, err)" and "c \<noteq> 0"
  shows "snd (stackSelectHandler a e w) = w\<lparr>spawned := spawned w @ [(''pulumi'', map JStr v)]\<rparr>
       \<and> delivered_as_data err (envelope_of (fst (stackSelectHandler a e w)))"
  using assms
  by (clarsimp simp add: stackSelectHandler_def Pulumi_stackSelectArgs_def vector_parts Let_def await_run data_Inr
      get_prop_def split: option.splits split del: if_split)

lemma stackInitHandler_fails:
  assumes "Pulumi_stackInitArgs a = Inr v"
    and "run_process e ''pulumi'' (map JStr v) = Inr (c, out, err)" and "c \<noteq> 0"
  shows "snd (stackInitHandler a e w) = w\<lparr>spawned := spawned w @ [(''pulumi'', map JStr v)]\<rparr>
       \<and> delivered_as_data err (envelope_of (fst (stackInitHandler a e w)))"
  using assms
  by (clarsimp simp add: stackInitHandler_def Pulumi_stackInitArgs_def vector_parts Let_def await_run data_Inr
      get_prop_def split: option.splits split del: if_split)

lemma stackOutputHandler_fails:
  assumes "Pulumi_stackOutputArgs a = Inr v"
    and "run_process e ''pulumi'' (map JStr v) = Inr (c, out, err)" and "c \<noteq> 0"
  shows "snd (stackOutputHandler a e w) = w\<lparr>spawned := spawned w @ [(''pulumi'', map JStr v)]\<rparr>
       \<and> delivered_as_data err (envelope_of (fst (stackOutputHandler a e w)))"
  using assms
  by (clarsimp simp add: stackOutputHandler_def Pulumi_stackOutputArgs_def vector_parts Let_def await_run data_Inr
      get_prop_def split: option.splits split del: if_split)

lemma refreshHandler_fails:
  assumes "Pulumi_refreshArgs a = Inr v"
    and "run_process e ''pulumi'' (map JStr v) = Inr (c, out, err)" and "c \<noteq> 0"
  shows "snd (refreshHandler a e w) = w\<lparr>spawned := spawned w @ [(''pulumi'', map JStr v)]\<rparr>
       \<and> delivered_as_data err (envelope_of (fst (refreshHandler a e w)))"
  using assms
  by (clarsimp simp add: refreshHandler_def Pulumi_refreshArgs_def vector_parts Let_def await_run data_Inr
      get_prop_def split: option.splits split del: if_split)

lemma configSetHandler_fails:
  assumes "Pulumi_configSetArgs a = Inr v"
    and "run_process e ''pulumi'' (map JStr v) = Inr (c, out, err)" and "c \<noteq> 0"
  shows "snd (configSetHandler a e w) = w\<lparr>spawned := spawned w @ [(''pulumi'', map JStr v)]\<rparr>
       \<and> delivered_as_data err (envelope_of (fst (configSetHandler a e w)))"
  using assms
  by (clarsimp simp add: configSetHandler_def Pulumi_configSetArgs_def vector_parts Let_def await_run data_Inr
      get_prop_def split: option.splits split del: if_split)

lemma configGetHandler_fails:
  assumes "Pulumi_configGetArgs a = Inr v"
    and "run_process e ''pulumi'' (map JStr v) = Inr (c, out, err)" and "c \<noteq> 0"
  shows "snd (configGetHandler a e w) = w\<lparr>spawned := spawned w @ [(''pulumi'', map JStr v)]\<rparr>
       \<and> delivered_as_data err (envelope_of (fst (configGetHandler a e w)))"
  using assms
  by (clarsimp simp add: configGetHandler_def Pulumi_configGetArgs_def vector_parts Let_def await_run data_Inr
      get_prop_def split: option.splits split del: if_split)

lemma versionHandler_fails:
  assumes "Pulumi_versionArgs a = Inr v"
    and "run_process e ''pulumi'' (map JStr v) = Inr (c, out, err)" and "c \<noteq> 0"
  shows "snd (versionHandler a e w) = w\<lparr>spawned := spawned w @ [(''pulumi'', map JStr v)]\<rparr>
       \<and> delivered_as_data err (envelope_of (fst (versionHandler a e w)))"
  using assms
  by (clarsimp simp add: versionHandler_def Pulumi_versionArgs_def vector_parts Let_def await_run data_Inr
      get_prop_def split: option.splits split del: if_split)

lemma Pulumi_zip:
  assumes "((n, t), (n', f)) \<in> set (zip Pulumi_tools Pulumi_vectors)"
  shows "n' = n \<and>
     (td_handler t = previewHandler \<and> f = Pulumi_previewArgs \<or>
      td_handler t = upHandler \<and> f = Pulumi_upArgs \<or>
      td_handler t = destroyHandler \<and> f = Pulumi_destroyArgs \<or>
      td_handler t = stackListHandler \<and> f = Pulumi_stackListArgs \<or>
      td_handler t = stackSelectHandler \<and> f = Pulumi_stackSelectArgs \<or>
      td_handler t = stackInitHandler \<and> f = Pulumi_stackInitArgs \<or>
      td_handler t = stackOutputHandler \<and> f = Pulumi_stackOutputArgs \<or>
      td_handler t = refreshHandler \<and> f = Pulumi_refreshArgs \<or>
      td_handler t = configSetHandler \<and> f = Pulumi_configSetArgs \<or>
      td_handler t = configGetHandler \<and> f = Pulumi_configGetArgs \<or>
      td_handler t = versionHandler \<and> f = Pulumi_versionArgs)"
  using assms unfolding Pulumi_tools_def Pulumi_vectors_def
  apply (simp only: zip_Cons_Cons zip_Nil list.set insert_iff empty_iff prod.inject)
  apply (elim disjE conjE; simp)
  done

lemma Terraform_zip:
  assumes "((n, t), (n', f)) \<in> set (zip Terraform_tools Terraform_vectors)"
  shows "n' = n \<and> td_handler t = Terraform_handler f"
  using assms unfolding Terraform_tools_def Terraform_vectors_def
  apply (simp only: zip_Cons_Cons zip_Nil list.set insert_iff empty_iff prod.inject)
  apply (elim disjE conjE; simp)
  done

lemma Pulumi_fails:
  assumes "((n, t), (n', f)) \<in> set (zip Pulumi_tools Pulumi_vectors)"
    and "f a = Inr v"
    and "run_process e ''pulumi'' (map JStr v) = Inr (c, out, err)" and "c \<noteq> 0"
  shows "snd (td_handler t a e w) = w\<lparr>spawned := spawned w @ [(''pulumi'', map JStr v)]\<rparr>
       \<and> delivered_as_data err (envelope_of (fst (td_handler t a e w)))"
  using Pulumi_zip [OF assms(1)] assms(2-4)
  by (elim conjE disjE; simp only:)
    (erule (2) previewHandler_fails upHandler_fails destroyHandler_fails stackListHandler_fails
      stackSelectHandler_fails stackInitHandler_fails stackOutputHandler_fails
      refreshHandler_fails configSetHandler_fails configGetHandler_fails versionHandler_fails)+

lemma vectors_aligned:
  "map fst tool_vectors = tools"
  "map fst Terraform_vectors = map fst Terraform_tools"
  "map fst Pulumi_vectors = map fst Pulumi_tools"
  by (simp_all add: tool_vectors_def tools_def Terraform_vectors_def Terraform_tools_def
      Pulumi_vectors_def Pulumi_tools_def)

text \<open>
  Claim C2. Take a call whose handler gets as far as running its process, and let
  that process exit with a code other than zero and standard error \<open>err\<close>. Then the
  call has invoked exactly that process, the envelope is not marked as an error, and
  its text is the serialised result whose \<open>success\<close> is false and whose \<open>error\<close>
  is \<open>err\<close>. This holds for every tool of \<open>terraform.js\<close> called through
  \<open>index.js\<close> with a resolved binary and the vector its handler builds, and for every
  tool of \<open>Terraform.res\<close> and of \<open>Pulumi.res\<close> called through the callback of
  \<open>main.js\<close> with the command line of the tool; the three tables name a vector for
  every tool.
\<close>

theorem process_failure_is_data:
  assumes "c \<noteq> 0"
  shows "(\<forall>(t, f)\<in>set tool_vectors. \<forall>b v.
            binaryPath w = Some b \<and> b \<noteq> [] \<and> f e args = Inr v \<and>
            run_process e b v = Inr (c, out, err) \<longrightarrow>
              snd (CallTool [terraformAdapter] e (name t) args w) =
                w\<lparr>spawned := spawned w @ [(b, v)]\<rparr> \<and>
              delivered_as_data err (fst (CallTool [terraformAdapter] e (name t) args w)))
       \<and> (\<forall>((n, t), (n', f))\<in>set (zip Terraform_tools Terraform_vectors). \<forall>b.
            binaryPath w = Some b \<and> run_process e b (map JStr (f a)) = Inr (c, out, err) \<longrightarrow>
              n' = n \<and>
              snd (tool_callback t a e w) = w\<lparr>spawned := spawned w @ [(b, map JStr (f a))]\<rparr> \<and>
              delivered_as_data err (fst (tool_callback t a e w)))
       \<and> (\<forall>((n, t), (n', f))\<in>set (zip Pulumi_tools Pulumi_vectors). \<forall>v.
            f a = Inr v \<and> run_process e ''pulumi'' (map JStr v) = Inr (c, out, err) \<longrightarrow>
              n' = n \<and>
              snd (tool_callback t a e w) =
                w\<lparr>spawned := spawned w @ [(''pulumi'', map JStr v)]\<rparr> \<and>
              delivered_as_data err (fst (tool_callback t a e w)))
       \<and> map fst tool_vectors = tools
       \<and> map fst Terraform_vectors = map fst Terraform_tools
       \<and> map fst Pulumi_vectors = map fst Pulumi_tools"
proof -
  have js: "snd (CallTool [terraformAdapter] e (name t) args w) =
        w\<lparr>spawned := spawned w @ [(b, v)]\<rparr> \<and>
      delivered_as_data err (fst (CallTool [terraformAdapter] e (name t) args w))"
    if "(t, f) \<in> set tool_vectors" and "binaryPath w = Some b" and "b \<noteq> []"
      and "f e args = Inr v" and "run_process e b v = Inr (c, out, err)" for t f b v
    unfolding CallTool_built [OF that(1)]
    by (simp add: run_built_def that(4) runCommand_fails [OF that(2,3,5) assms] data_Inr
        get_prop_def)
  have tf: "n' = n \<and>
      snd (tool_callback t a e w) = w\<lparr>spawned := spawned w @ [(b, map JStr (f a))]\<rparr> \<and>
      delivered_as_data err (fst (tool_callback t a e w))"
    if "((n, t), (n', f)) \<in> set (zip Terraform_tools Terraform_vectors)"
      and "binaryPath w = Some b" and "run_process e b (map JStr (f a)) = Inr (c, out, err)"
    for n t n' f b
    using Terraform_zip [OF that(1)]
    by (simp add: tool_callback_eq Terraform_handler_def
        Terraform_runCommand_fails [OF that(2,3) assms] data_Inr get_prop_def)
  have pu: "n' = n \<and>
      snd (tool_callback t a e w) = w\<lparr>spawned := spawned w @ [(''pulumi'', map JStr v)]\<rparr> \<and>
      delivered_as_data err (fst (tool_callback t a e w))"
    if "((n, t), (n', f)) \<in> set (zip Pulumi_tools Pulumi_vectors)"
      and "f a = Inr v" and "run_process e ''pulumi'' (map JStr v) = Inr (c, out, err)"
    for n t n' f v
    using Pulumi_zip [OF that(1)] Pulumi_fails [OF that assms]
    by (simp add: tool_callback_eq)
  show ?thesis
    using js tf pu by (auto simp only: vectors_aligned)
qed

theorem process_failure_is_data_witness:
  "delivered_as_data ''Error: No configuration files''
     (fst (CallTool [terraformAdapter] os_tofu ''terraform_validate''
        (Some [(''path'', JStr ''.'')]) (snd (connect os_tofu fresh))))
   \<and> spawned (snd (CallTool [terraformAdapter] os_tofu ''terraform_validate''
        (Some [(''path'', JStr ''.'')]) (snd (connect os_tofu fresh)))) =
       [(''tofu'', [JStr ''version'']), (''tofu'', [JStr ''validate'', JStr ''.''])]
   \<and> delivered_as_data ''Error: No configuration files''
     (fst (tool_callback
        \<lparr>td_description = ''Validate the configuration files'',
         td_params = [(''path'', stringParam ''Path to configuration directory'')],
         td_handler = Terraform_handler Terraform_validateArgs\<rparr>
        [(''path'', JStr ''.'')] os_tofu (snd (connect os_tofu fresh))))
   \<and> delivered_as_data ''no such stack''
     (fst (tool_callback
        \<lparr>td_description = ''Select a stack'',
         td_params = [(''stack'', stringParam ''Stack name to select''),
                      (''path'', stringParam ''Path to Pulumi project'')],
         td_handler = stackSelectHandler\<rparr>
        [(''stack'', JStr ''dev'')] os_pulumi fresh))"
proof -
  let ?w = "snd (connect os_tofu fresh)"
  let ?a = "[(''path'', JStr ''.'')]"
  let ?tv = "\<lparr>td_description = ''Validate the configuration files'',
         td_params = [(''path'', stringParam ''Path to configuration directory'')],
         td_handler = Terraform_handler Terraform_validateArgs\<rparr>"
  let ?ts = "\<lparr>td_description = ''Select a stack'',
         td_params = [(''stack'', stringParam ''Stack name to select''),
                      (''path'', stringParam ''Path to Pulumi project'')],
         td_handler = stackSelectHandler\<rparr>"
  have one: "(1::int) \<noteq> 0" by simp
  have w: "?w = \<lparr>binaryPath = Some ''tofu'', connected = True, pulumi_connected = False,
      spawned = [(''tofu'', [JStr ''version''])], stderr_lines = []\<rparr>"
    by (simp add: connect_def detectBinary_def command_output_def os_tofu_def fresh_def)
  have b: "binaryPath ?w = Some ''tofu''" by (simp add: w)
  have m1: "(terraform_validate, validate_built) \<in> set tool_vectors"
    by (simp add: in_tool_vectors)
  have v1: "validate_built os_tofu (Some ?a) = Inr [JStr ''validate'', JStr ''.'']"
    by (simp add: built_from_mapping validate_args_def get_prop_def)
  have r1: "run_process os_tofu ''tofu'' [JStr ''validate'', JStr ''.''] =
      Inr (1, [], ''Error: No configuration files'')"
    by (simp add: os_tofu_def)
  from process_failure_is_data [OF one, of ?w os_tofu "Some ?a" "[]"
      "''Error: No configuration files''" ?a] m1 b v1 r1
  have 1: "snd (CallTool [terraformAdapter] os_tofu (name terraform_validate) (Some ?a) ?w) =
        ?w\<lparr>spawned := spawned ?w @ [(''tofu'', [JStr ''validate'', JStr ''.''])]\<rparr> \<and>
      delivered_as_data ''Error: No configuration files''
        (fst (CallTool [terraformAdapter] os_tofu (name terraform_validate) (Some ?a) ?w))"
    by fastforce
  have m2: "((''terraform_validate'', ?tv), (''terraform_validate'', Terraform_validateArgs))
      \<in> set (zip Terraform_tools Terraform_vectors)"
    by (simp add: Terraform_tools_def Terraform_vectors_def)
  have r2: "run_process os_tofu ''tofu'' (map JStr (Terraform_validateArgs ?a)) =
      Inr (1, [], ''Error: No configuration files'')"
    by (simp add: os_tofu_def Terraform_validateArgs_def decode_string_def getOr_def)
  from process_failure_is_data [OF one, of ?w os_tofu "Some ?a" "[]"
      "''Error: No configuration files''" ?a] m2 b r2
  have 2: "delivered_as_data ''Error: No configuration files''
      (fst (tool_callback ?tv ?a os_tofu ?w))"
    by fastforce
  have m3: "((''pulumi_stack_select'', ?ts), (''pulumi_stack_select'', Pulumi_stackSelectArgs))
      \<in> set (zip Pulumi_tools Pulumi_vectors)"
    by (simp add: Pulumi_tools_def Pulumi_vectors_def)
  have v3: "Pulumi_stackSelectArgs [(''stack'', JStr ''dev'')] =
      Inr [''stack'', ''select'', ''dev'', ''--cwd'', ''.'']"
    by (simp add: Pulumi_stackSelectArgs_def vector_parts decode_string_def getOr_def)
  have r3: "run_process os_pulumi ''pulumi''
      (map JStr [''stack'', ''select'', ''dev'', ''--cwd'', ''.'']) = Inr (1, [], ''no such stack'')"
    by (simp add: os_pulumi_def)
  from process_failure_is_data [OF one, of fresh os_pulumi None "[]" "''no such stack''"
      "[(''stack'', JStr ''dev'')]"] m3 v3 r3
  have 3: "delivered_as_data ''no such stack''
      (fst (tool_callback ?ts [(''stack'', JStr ''dev'')] os_pulumi fresh))"
    by fastforce
  from 1 2 3 show ?thesis by (simp add: tool_names w)
qed

section \<open>Calls that omit a required parameter\<close>

lemma Pulumi_required_tools:
  "(''pulumi_stack_select'', t) \<in> set Pulumi_tools \<Longrightarrow> td_handler t = stackSelectHandler"
  "(''pulumi_stack_init'', t) \<in> set Pulumi_tools \<Longrightarrow> td_handler t = stackInitHandler"
  "(''pulumi_config_set'', t) \<in> set Pulumi_tools \<Longrightarrow> td_handler t = configSetHandler"
  "(''pulumi_config_get'', t) \<in> set Pulumi_tools \<Longrightarrow> td_handler t = configGetHandler"
  unfolding Pulumi_tools_def by auto

text \<open>
  Claim C1, as amended. Neither server checks the arguments of a call against the
  schema of the tool. The handlers that check for themselves are those of
  \<open>pulumi_stack_select\<close>, \<open>pulumi_stack_init\<close>, \<open>pulumi_config_set\<close> and
  \<open>pulumi_config_get\<close>: when a parameter such a handler insists on is missing or
  is not a string, the call returns the error envelope naming the first such
  parameter, and the world is unchanged, so no process has been invoked. The tools of
  \<open>terraform.js\<close> declare \<open>path\<close> required and run without it, which is where
  the claim as stated fails.
\<close>

theorem required_parameter_missing:
  assumes "(nm, t) \<in> set Pulumi_tools" and "(nm, ps) \<in> set required_params"
    and "find (\<lambda>p. decode_string a p = None) ps = Some q"
  shows "tool_callback t a e w =
           (\<lparr>content = [Plain (''Error: '' @ q @ '' parameter is required'')],
             isError = Some True\<rparr>, w)"
proof -
  from assms(2) consider
      "nm = ''pulumi_stack_select''" "ps = [''stack'']"
    | "nm = ''pulumi_stack_init''" "ps = [''stack'']"
    | "nm = ''pulumi_config_set''" "ps = [''key'', ''value'']"
    | "nm = ''pulumi_config_get''" "ps = [''key'']"
    by (auto simp add: required_params_def)
  then show ?thesis
  proof cases
    case 1
    with assms(1,3) show ?thesis
      by (auto simp add: Pulumi_required_tools tool_callback_eq stackSelectHandler_def
          envelope_of_def split: if_splits)
  next
    case 2
    with assms(1,3) show ?thesis
      by (auto simp add: Pulumi_required_tools tool_callback_eq stackInitHandler_def
          envelope_of_def split: if_splits)
  next
    case 3
    with assms(1,3) show ?thesis
      by (auto simp add: Pulumi_required_tools tool_callback_eq configSetHandler_def
          envelope_of_def split: if_splits)
  next
    case 4
    with assms(1,3) show ?thesis
      by (auto simp add: Pulumi_required_tools tool_callback_eq configGetHandler_def
          envelope_of_def split: if_splits)
  qed
qed

theorem required_parameter_missing_witness:
  "tool_callback
     \<lparr>td_description = ''Set a configuration value'',
      td_params = [(''key'', stringParam ''Configuration key''),
                   (''value'', stringParam ''Configuration value''),
                   (''secret'', boolParam ''Encrypt the value''),
                   (''path'', stringParam ''Path to Pulumi project'')],
      td_handler = configSetHandler\<rparr>
     [(''key'', JStr ''aws:region'')] os_pulumi fresh =
   (\<lparr>content = [Plain ''Error: value parameter is required''], isError = Some True\<rparr>, fresh)
   \<and> spawned fresh = []"
proof -
  let ?t = "\<lparr>td_description = ''Set a configuration value'',
      td_params = [(''key'', stringParam ''Configuration key''),
                   (''value'', stringParam ''Configuration value''),
                   (''secret'', boolParam ''Encrypt the value''),
                   (''path'', stringParam ''Path to Pulumi project'')],
      td_handler = configSetHandler\<rparr>"
  have m: "(''pulumi_config_set'', ?t) \<in> set Pulumi_tools"
    by (simp add: Pulumi_tools_def)
  have r: "(''pulumi_config_set'', [''key'', ''value'']) \<in> set required_params"
    by (simp add: required_params_def)
  have f: "find (\<lambda>p. decode_string [(''key'', JStr ''aws:region'')] p = None) [''key'', ''value'']
             = Some ''value''"
    by (simp add: decode_string_def)
  from required_parameter_missing [OF m r f, of os_pulumi fresh]
  show ?thesis by (simp add: fresh_def)
qed

theorem missing_path_counterexample:
  "required (inputSchema terraform_init) = [''path'']
   \<and> CallTool [terraformAdapter] os_tofu ''terraform_init'' (Some []) (snd (connect os_tofu fresh)) =
       (\<lparr>content = [Stringify (JObj [(''success'', JBool False), (''output'', JStr []),
                     (''error'', JStr ''Error: No configuration files''), (''code'', JNum 1)])],
         isError = None\<rparr>,
        \<lparr>binaryPath = Some ''tofu'', connected = True, pulumi_connected = False,
         spawned = [(''tofu'', [JStr ''version'']), (''tofu'', [JStr ''init'', JUndefined])],
         stderr_lines = []\<rparr>)"
  by (simp add: find_tool_def terraformAdapter_def tools_def tool_names tool_handlers
      terraform_init_def connect_def detectBinary_def command_output_def os_tofu_def fresh_def
      run_built_def built_from_mapping runCommand_def init_args_def get_prop_def
      get_default_def envelope_of_def)

section \<open>Startup: connecting the adapters and merging their tools\<close>

lemma keys_register_tools:
  "fst ` set (register_tools ts table) = fst ` set table \<union> fst ` set ts"
  unfolding register_tools_def
proof (induction ts arbitrary: table)
  case Nil
  show ?case by simp
next
  case (Cons p ts)
  obtain k v where p: "p = (k, v)" by (cases p)
  have "fst ` set (fold (\<lambda>(nm, d). AList.update nm d) ts (AList.update k v table)) =
          fst ` set (AList.update k v table) \<union> fst ` set ts"
    by (rule Cons.IH)
  also have "\<dots> = fst ` set table \<union> fst ` set (p # ts)"
    unfolding AList.dom_update by (auto simp add: p)
  finally show ?case by (simp add: p)
qed

lemma map_of_register_tools:
  "map_of (register_tools ts table) = map_of table ++ map_of (rev ts)"
  unfolding register_tools_def
proof (induction ts arbitrary: table)
  case Nil
  show ?case by simp
next
  case (Cons p ts)
  obtain k v where p: "p = (k, v)" by (cases p)
  have "map_of (fold (\<lambda>(nm, d). AList.update nm d) ts (AList.update k v table)) =
          map_of (AList.update k v table) ++ map_of (rev ts)"
    by (rule Cons.IH)
  also have "\<dots> = map_of table ++ map_of (rev (p # ts))"
    by (auto simp add: p AList.update_conv' fun_eq_iff map_add_def split: option.splits)
  finally show ?case by (simp add: p)
qed

lemma connect_all_outcomes:
  "fst (connect_all ads e (conn, table, w)) =
     conn @ map fst (filter snd (connect_outcomes ads e w))
   \<and> fst (snd (connect_all ads e (conn, table, w))) =
     fold (\<lambda>a. register_tools (m_tools a))
       (map fst (filter snd (connect_outcomes ads e w))) table"
proof (induction ads arbitrary: conn table w)
  case Nil
  show ?case by simp
next
  case (Cons a ads)
  obtain r w' where c: "m_connect a e w = (r, w')" by (cases "m_connect a e w")
  show ?case
  proof (cases r)
    case (Inl err)
    with c show ?thesis using Cons.IH by simp
  next
    case (Inr u)
    with c show ?thesis using Cons.IH by simp
  qed
qed

lemma connect_outcomes_all: "map fst (connect_outcomes ads e w) = ads"
  by (induction ads arbitrary: w) (auto split: prod.splits sum.splits)

lemma keys_fold_register:
  "fst ` set (fold (\<lambda>a. register_tools (m_tools a)) conn table) =
     fst ` set table \<union> (\<Union>a\<in>set conn. fst ` set (m_tools a))"
  by (induction conn arbitrary: table) (auto simp add: keys_register_tools)

lemma main_result:
  "connectedAdapters (fst (main ads e w)) = map fst (filter snd (connect_outcomes ads e w))
   \<and> registered (fst (main ads e w)) =
       map register (fold (\<lambda>a. register_tools (m_tools a))
                       (map fst (filter snd (connect_outcomes ads e w))) [])
   \<and> exit_code (fst (main ads e w)) = None"
proof -
  obtain conn table w1 where c: "connect_all ads e ([], [], w) = (conn, table, w1)"
    by (cases "connect_all ads e ([], [], w)")
  from connect_all_outcomes [of ads e "[]" "[]" w] c show ?thesis
    by (simp add: main_def Let_def)
qed

lemma reg_names: "map reg_name (map register table) = map fst table"
  by (simp add: register_def split: prod.splits)

lemma reg_entries: "map (\<lambda>r. (reg_name r, reg_tool r)) (map register table) = table"
  by (induction table) (simp_all add: register_def split: prod.splits)

lemma entries_update: "set (AList.update k v al) \<subseteq> insert (k, v) (set al)"
  by (induction al) auto

lemma entries_register_tools: "set (register_tools ts table) \<subseteq> set table \<union> set ts"
  unfolding register_tools_def
proof (induction ts arbitrary: table)
  case Nil
  show ?case by simp
next
  case (Cons p ts)
  obtain k v where p: "p = (k, v)" by (cases p)
  have "set (fold (\<lambda>(nm, d). AList.update nm d) ts (AList.update k v table)) \<subseteq>
          set (AList.update k v table) \<union> set ts"
    by (rule Cons.IH)
  also have "\<dots> \<subseteq> set table \<union> set (p # ts)"
    using entries_update [of k v table] by (auto simp add: p)
  finally show ?case by (simp add: p)
qed

lemma entries_fold_register:
  "set (fold (\<lambda>a. register_tools (m_tools a)) conn table) \<subseteq>
     set table \<union> (\<Union>a\<in>set conn. set (m_tools a))"
proof (induction conn arbitrary: table)
  case Nil
  show ?case by simp
next
  case (Cons a conn)
  have "set (fold (\<lambda>a. register_tools (m_tools a)) conn (register_tools (m_tools a) table)) \<subseteq>
          set (register_tools (m_tools a) table) \<union> (\<Union>a\<in>set conn. set (m_tools a))"
    by (rule Cons.IH)
  also have "\<dots> \<subseteq> set table \<union> (\<Union>a\<in>set (a # conn). set (m_tools a))"
    using entries_register_tools [of "m_tools a" table] by auto
  finally show ?case by simp
qed

text \<open>
  Claim C4. The startup loop of \<open>main.js\<close> calls \<open>connect()\<close> on every adapter
  of the list, in order, whatever the earlier calls did. The connected adapters are
  exactly those whose \<open>connect()\<close> returned; an adapter whose \<open>connect()\<close> threw
  is left out. The names registered with the server are exactly the names of the
  tools of the connected adapters, and every registered tool is a tool of one of
  them.
\<close>

theorem failed_adapters_excluded:
  "map fst (connect_outcomes ads e w) = ads
   \<and> connectedAdapters (fst (main ads e w)) = map fst (filter snd (connect_outcomes ads e w))
   \<and> set (map reg_name (registered (fst (main ads e w)))) =
       (\<Union>a\<in>set (connectedAdapters (fst (main ads e w))). fst ` set (m_tools a))
   \<and> set (map (\<lambda>r. (reg_name r, reg_tool r)) (registered (fst (main ads e w)))) \<subseteq>
       (\<Union>a\<in>set (connectedAdapters (fst (main ads e w))). set (m_tools a))"
proof -
  let ?conn = "map fst (filter snd (connect_outcomes ads e w))"
  let ?table = "fold (\<lambda>a. register_tools (m_tools a)) ?conn []"
  have "set (map reg_name (registered (fst (main ads e w)))) = set (map fst ?table)"
    by (simp only: main_result reg_names)
  also have "\<dots> = (\<Union>a\<in>set ?conn. fst ` set (m_tools a))"
    using keys_fold_register [of ?conn "[]"] by simp
  finally have names: "set (map reg_name (registered (fst (main ads e w)))) =
      (\<Union>a\<in>set ?conn. fst ` set (m_tools a))" .
  have "map (\<lambda>r. (reg_name r, reg_tool r)) (registered (fst (main ads e w))) = ?table"
    by (simp only: main_result reg_entries)
  then have entries: "set (map (\<lambda>r. (reg_name r, reg_tool r)) (registered (fst (main ads e w))))
      \<subseteq> (\<Union>a\<in>set ?conn. set (m_tools a))"
    using entries_fold_register [of ?conn "[]"] by simp
  from names entries show ?thesis
    by (simp only: main_result connect_outcomes_all simp_thms)
qed

theorem failed_adapters_excluded_witness:
  "connect_outcomes adapters os_pulumi fresh = [(Terraform, False), (Pulumi, True)]
   \<and> connectedAdapters (fst (main adapters os_pulumi fresh)) = [Pulumi]
   \<and> set (map reg_name (registered (fst (main adapters os_pulumi fresh)))) =
       fst ` set Pulumi_tools"
proof -
  have o: "connect_outcomes adapters os_pulumi fresh = [(Terraform, False), (Pulumi, True)]"
    by (simp add: adapters_def Terraform_def Pulumi_def Terraform_connect_def
        Terraform_detectBinary_def Pulumi_connect_def runPulumiCmd_def Command_run_eq
        os_pulumi_def)
  from failed_adapters_excluded [of adapters os_pulumi fresh] o
  show ?thesis by (simp add: Pulumi_def)
qed

lemma find_register:
  "map_of table n = Some t \<Longrightarrow>
   find (\<lambda>r. reg_name r = n) (map register table) = Some (register (n, t))"
  by (induction table) (auto simp add: register_def)

lemma CallTool_first:
  "find_tool a n = Some t \<Longrightarrow>
   CallTool (a # rest) e n args w = (envelope_of (fst (handler t args e w)), snd (handler t args e w))"
  by (simp split: prod.splits)

text \<open>
  Claim C7, as amended. In \<open>main.js\<close>, when two adapters connect one after the
  other and the later one has a tool under a name, the merged table maps the name to
  the tool of the later adapter, whatever the earlier adapter has under that name,
  and a call of the name runs the handler of the later adapter. In \<open>index.js\<close>
  there is no merged table: the call scans the adapters in order and runs the handler
  of the first adapter that has a tool of that name, which is where the claim as
  stated fails.
\<close>

theorem later_adapter_overrides:
  assumes "m_connect A e w = (Inr (), w1)" and "m_connect B e w1 = (Inr (), w2)"
    and "(n, tb) \<in> set (m_tools B)" and "distinct (map fst (m_tools B))"
  shows "map_of (fst (snd (connect_all [A, B] e ([], [], w)))) n = Some tb
       \<and> call_registered (fst (main [A, B] e w)) e' n args w' =
           Some (tool_callback tb args e' w')
       \<and> (find_tool a n = Some t \<longrightarrow>
           CallTool (a # rest) e' n args' w' =
             (envelope_of (fst (handler t args' e' w')), snd (handler t args' e' w')))"
proof -
  let ?table = "register_tools (m_tools B) (register_tools (m_tools A) [])"
  have c: "connect_all [A, B] e ([], [], w) = ([A, B], ?table, w2)"
    by (simp add: assms(1,2))
  from assms(3,4) have "map_of (rev (m_tools B)) n = Some tb"
    by (intro map_of_is_SomeI) (simp_all add: rev_map [symmetric])
  then have m: "map_of ?table n = Some tb"
    by (simp add: map_of_register_tools [of "m_tools B"] map_add_def)
  have srv: "registered (fst (main [A, B] e w)) = map register ?table"
    unfolding main_def c by (simp add: Let_def)
  have "call_registered (fst (main [A, B] e w)) e' n args w' =
          Some (tool_callback tb args e' w')"
    unfolding call_registered_def srv find_register [OF m] by (simp add: register_def)
  with m show ?thesis unfolding c by (simp add: CallTool_first del: CallTool.simps)
qed

theorem later_adapter_overrides_witness:
  "call_registered (fst (main [first_module, second_module] os_none fresh)) os_none
       ''shared_tool'' [] fresh =
     Some (\<lparr>content = [Stringify (JStr ''second'')], isError = None\<rparr>, fresh)
   \<and> find_tool first_adapter ''shared_tool'' =
       Some \<lparr>name = ''shared_tool'', description = ''the first one'',
             inputSchema = \<lparr>properties = [], required = []\<rparr>, handler = say ''first''\<rparr>
   \<and> CallTool [first_adapter, second_adapter] os_none ''shared_tool'' (Some []) fresh =
       (\<lparr>content = [Stringify (JStr ''first'')], isError = None\<rparr>, fresh)"
proof -
  let ?tb = "\<lparr>td_description = ''the second one'', td_params = [], td_handler = say ''second''\<rparr>"
  let ?t = "\<lparr>name = ''shared_tool'', description = ''the first one'',
             inputSchema = \<lparr>properties = [], required = []\<rparr>, handler = say ''first''\<rparr>"
  have a: "m_connect first_module os_none fresh = (Inr (), fresh)"
    and b: "m_connect second_module os_none fresh = (Inr (), fresh)"
    by (simp_all add: first_module_def second_module_def)
  have m: "(''shared_tool'', ?tb) \<in> set (m_tools second_module)"
    and d: "distinct (map fst (m_tools second_module))"
    by (simp_all add: second_module_def)
  have f: "find_tool first_adapter ''shared_tool'' = Some ?t"
    by (simp add: find_tool_def first_adapter_def)
  from later_adapter_overrides [OF a b m d, where e' = os_none and args = "[]" and w' = fresh
      and a = first_adapter and t = ?t and rest = "[second_adapter]" and args' = "Some []"] f
  show ?thesis by (simp add: tool_callback_eq say_def envelope_of_def del: CallTool.simps)
qed

theorem first_adapter_answers:
  "CallTool [first_adapter, second_adapter] os_none ''shared_tool'' (Some []) fresh =
     (\<lparr>content = [Stringify (JStr ''first'')], isError = None\<rparr>, fresh)
   \<and> CallTool [second_adapter] os_none ''shared_tool'' (Some []) fresh =
     (\<lparr>content = [Stringify (JStr ''second'')], isError = None\<rparr>, fresh)"
  by (simp add: first_adapter_def second_adapter_def find_tool_def say_def envelope_of_def)

lemma show_nat_0: "show_nat 0 = ''0''"
  by (simp add: show_nat.simps digit_def)

text \<open>
  Claim C8, as amended. When no adapter connects, \<open>main\<close> still completes the
  startup: it registers no tool, writes the version line, \<open>0 adapter(s) connected\<close>,
  \<open>0 tools registered\<close> and the feedback line to the error stream, and goes on
  serving; no path of \<open>main.js\<close> ends the process. A fault in a call does not end
  it either: a handler that throws gives an error envelope with the message.
\<close>

theorem no_adapter_connects:
  assumes "connectedAdapters (fst (main ads e w)) = []"
  shows "exit_code (fst (main ads e w)) = None
       \<and> registered (fst (main ads e w)) = []
       \<and> (\<exists>earlier. stderr_lines (snd (main ads e w)) =
             earlier @ [''poly-iac-mcp v1.2.0 (STDIO mode)'', ''0 adapter(s) connected'',
                        ''0 tools registered'',
                        ''Feedback: https://github.com/hyperpolymath/poly-iac-mcp/issues''])
       \<and> (td_handler t a e' w0 = (Inl x, w1) \<longrightarrow>
            tool_callback t a e' w0 =
              (\<lparr>content = [Plain (''Error: '' @ message x)], isError = Some True\<rparr>, w1))"
proof -
  obtain conn table w1' where c: "connect_all ads e ([], [], w) = (conn, table, w1')"
    by (cases "connect_all ads e ([], [], w)")
  from assms main_result [of ads e w]
  have none: "map fst (filter snd (connect_outcomes ads e w)) = []" by simp
  from connect_all_outcomes [of ads e "[]" "[]" w] c none have e: "conn = []" "table = []"
    by simp_all
  show ?thesis
    by (simp add: main_def c e Let_def console_error_def VERSION_def show_nat_0
        tool_callback_def envelope_of_def)
qed

theorem no_adapter_connects_witness:
  "connectedAdapters (fst (main adapters os_none fresh)) = []
   \<and> exit_code (fst (main adapters os_none fresh)) = None
   \<and> registered (fst (main adapters os_none fresh)) = []
   \<and> tool_callback
        \<lparr>td_description = ''Create a new stack'',
         td_params = [(''stack'', stringParam ''Stack name to create''),
                      (''path'', stringParam ''Path to Pulumi project'')],
         td_handler = stackInitHandler\<rparr> [] os_none fresh =
       (\<lparr>content = [Plain ''Error: stack parameter is required''], isError = Some True\<rparr>, fresh)"
proof -
  let ?t = "\<lparr>td_description = ''Create a new stack'',
         td_params = [(''stack'', stringParam ''Stack name to create''),
                      (''path'', stringParam ''Path to Pulumi project'')],
         td_handler = stackInitHandler\<rparr>"
  have "connect_outcomes adapters os_none fresh = [(Terraform, False), (Pulumi, False)]"
    by (simp add: adapters_def Terraform_def Pulumi_def Terraform_connect_def
        Terraform_detectBinary_def Pulumi_connect_def runPulumiCmd_def Command_run_eq os_none_def)
  then have c: "connectedAdapters (fst (main adapters os_none fresh)) = []"
    by (simp add: main_result)
  have h: "td_handler ?t [] os_none fresh = (Inl (Error ''stack parameter is required''), fresh)"
    by (simp add: stackInitHandler_def decode_string_def)
  from no_adapter_connects [OF c, of ?t "[]" os_none fresh "Error ''stack parameter is required''"
      fresh] c h
  show ?thesis by simp
qed

theorem startup_without_adapters:
  "exit_code (fst (main adapters os_none fresh)) = None
   \<and> connectedAdapters (fst (main adapters os_none fresh)) = []
   \<and> stderr_lines (snd (main adapters os_none fresh)) =
       [''Failed to connect terraform: No Terraform/OpenTofu binary found'',
        ''Failed to connect pulumi: NotFound'',
        ''poly-iac-mcp v1.2.0 (STDIO mode)'', ''0 adapter(s) connected'',
        ''0 tools registered'',
        ''Feedback: https://github.com/hyperpolymath/poly-iac-mcp/issues'']"
  by (simp add: main_def adapters_def Terraform_def Pulumi_def Terraform_connect_def
      Terraform_detectBinary_def Pulumi_connect_def runPulumiCmd_def Command_run_eq os_none_def
      fresh_def console_error_def VERSION_def show_nat_0 Let_def)

end
